theory Spec2Isabelle
  imports Main "HOL-Library.AList"
begin

section \<open>JavaScript values\<close>

text \<open>
  The values the persistence layer and the socket handlers see at run time: what
  \<^verbatim>\<open>JSON.parse\<close> returns, together with \<^verbatim>\<open>undefined\<close>. Numbers are the
  integers (fractions, NaN and the infinities are left out). An object is the list of its
  own enumerable properties in insertion order; a property is looked up by its first
  entry and written with \<^const>\<open>AList.update\<close>, which replaces in place or appends.
\<close>

datatype jsval =
    JUndefined
  | JNull
  | JBool bool
  | JNum int
  | JStr string
  | JArr "jsval list"
  | JObj "(string \<times> jsval) list"

type_synonym jsobj = "(string \<times> jsval) list"

datatype jsexn = SyntaxError | TypeError | QuotaExceededError

text \<open>\<^verbatim>\<open>!!v\<close>: the falsy values are undefined, null, false, 0 and the empty string.\<close>

fun truthy :: "jsval \<Rightarrow> bool" where
  "truthy JUndefined = False"
| "truthy JNull = False"
| "truthy (JBool b) = b"
| "truthy (JNum n) = (n \<noteq> 0)"
| "truthy (JStr s) = (s \<noteq> [])"
| "truthy (JArr xs) = True"
| "truthy (JObj kvs) = True"

fun nullish :: "jsval \<Rightarrow> bool" where
  "nullish JUndefined = True"
| "nullish JNull = True"
| "nullish v = False"

text \<open>Decimal rendering of an array index, as in the property names of an array.\<close>

function show_nat :: "nat \<Rightarrow> string" where
  "show_nat n =
     (if n < 10 then [''0123456789'' ! n]
      else show_nat (n div 10) @ [''0123456789'' ! (n mod 10)])"
  by pat_completeness auto
termination
  by (relation "measure id") auto

definition obj_get :: "jsobj \<Rightarrow> string \<Rightarrow> jsval" where
  "obj_get obj key = (case map_of obj key of None \<Rightarrow> JUndefined | Some v \<Rightarrow> v)"

text \<open>
  The own enumerable properties of a value that is not undefined or null: an object's
  entries, an array's elements and a string's characters under their indices, nothing
  for a boolean or a number.
\<close>

fun js_entries :: "jsval \<Rightarrow> jsobj" where
  "js_entries (JObj kvs) = kvs"
| "js_entries (JArr xs) = zip (map show_nat [0..<length xs]) xs"
| "js_entries (JStr s) = zip (map show_nat [0..<length s]) (map (\<lambda>c. JStr [c]) s)"
| "js_entries v = []"

text \<open>\<^verbatim>\<open>Object.keys(v)\<close> throws a TypeError on undefined and null.\<close>

definition Object_keys :: "jsval \<Rightarrow> jsexn + string list" where
  "Object_keys v = (if nullish v then Inl TypeError else Inr (map fst (js_entries v)))"

text \<open>\<^verbatim>\<open>v[key]\<close> for a key that \<^verbatim>\<open>Object.keys\<close> listed, or a plain data property.\<close>

definition js_get :: "jsval \<Rightarrow> string \<Rightarrow> jsval" where
  "js_get v key = obj_get (js_entries v) key"

text \<open>\<^verbatim>\<open>v.key\<close>: reading a property of undefined or null throws a TypeError.\<close>

definition js_member :: "jsval \<Rightarrow> string \<Rightarrow> jsexn + jsval" where
  "js_member v key = (if nullish v then Inl TypeError else Inr (js_get v key))"

section \<open>The persistence library\<close>

definition STORAGE_PREFIX :: string where
  "STORAGE_PREFIX = ''deeptutor_''"

definition STORAGE_VERSION :: int where
  "STORAGE_VERSION = 1"

text \<open>
  The browser as the library sees it. \<^verbatim>\<open>window_localStorage\<close> is None where
  \<^verbatim>\<open>typeof window === "undefined"\<close> (on the server), and the entries of
  \<^verbatim>\<open>localStorage\<close> otherwise. \<^verbatim>\<open>setItem\<close> throws a QuotaExceededError where
  the store does not accept the entry. \<^verbatim>\<open>JSON.parse\<close> (None: SyntaxError),
  \<^verbatim>\<open>JSON.stringify\<close> (None: TypeError) and \<^verbatim>\<open>Date.now()\<close> are the platform's
  and are taken as they come.
\<close>

record browser =
  window_localStorage :: "(string \<rightharpoonup> string) option"
  setItem_accepts :: "string \<Rightarrow> string \<Rightarrow> bool"
  JSON_parse :: "string \<Rightarrow> jsval option"
  JSON_stringify :: "jsval \<Rightarrow> string option"
  Date_now :: int

text \<open>The entry stored under a key, if there is a store and it has one.\<close>

definition getItem :: "browser \<Rightarrow> string \<Rightarrow> string option" where
  "getItem b k = (case window_localStorage b of None \<Rightarrow> None | Some store \<Rightarrow> store k)"

text \<open>The \<^verbatim>\<open>try\<close> block of \<^verbatim>\<open>loadFromStorage\<close>.\<close>

definition loadFromStorage_try ::
  "browser \<Rightarrow> (string \<rightharpoonup> string) \<Rightarrow> string \<Rightarrow> jsval \<Rightarrow> jsexn + jsval" where
  "loadFromStorage_try b store key defaultValue =
     (let prefixedKey = STORAGE_PREFIX @ key;
          raw = store prefixedKey
      in case raw of
           None \<Rightarrow> Inr defaultValue
         | Some r \<Rightarrow>
             if r = [] then Inr defaultValue
             else (case JSON_parse b r of
                     None \<Rightarrow> Inl SyntaxError
                   | Some wrapper \<Rightarrow>
                       (case js_member wrapper ''version'' of
                          Inl e \<Rightarrow> Inl e
                        | Inr ver \<Rightarrow>
                            if ver \<noteq> JNum STORAGE_VERSION then Inr defaultValue
                            else js_member wrapper ''data'')))"

definition loadFromStorage :: "browser \<Rightarrow> string \<Rightarrow> jsval \<Rightarrow> jsexn + jsval" where
  "loadFromStorage b key defaultValue =
     (case window_localStorage b of
        None \<Rightarrow> Inr defaultValue
      | Some store \<Rightarrow>
          (case loadFromStorage_try b store key defaultValue of
             Inl e \<Rightarrow> Inr defaultValue
           | Inr v \<Rightarrow> Inr v))"

text \<open>The \<^verbatim>\<open>try\<close> block of \<^verbatim>\<open>saveToStorage\<close>.\<close>

definition storage_wrapper :: "browser \<Rightarrow> jsval \<Rightarrow> jsval" where
  "storage_wrapper b v =
     JObj [(''version'', JNum STORAGE_VERSION), (''data'', v), (''timestamp'', JNum (Date_now b))]"

definition saveToStorage_try ::
  "browser \<Rightarrow> (string \<rightharpoonup> string) \<Rightarrow> string \<Rightarrow> jsval \<Rightarrow> jsexn + browser" where
  "saveToStorage_try b store key v =
     (let prefixedKey = STORAGE_PREFIX @ key;
          wrapper = storage_wrapper b v
      in case JSON_stringify b wrapper of
           None \<Rightarrow> Inl TypeError
         | Some s \<Rightarrow>
             if setItem_accepts b prefixedKey s
             then Inr (b\<lparr>window_localStorage := Some (store(prefixedKey \<mapsto> s))\<rparr>)
             else Inl QuotaExceededError)"

definition saveToStorage :: "browser \<Rightarrow> string \<Rightarrow> jsval \<Rightarrow> jsexn + browser" where
  "saveToStorage b key v =
     (case window_localStorage b of
        None \<Rightarrow> Inr b
      | Some store \<Rightarrow>
          (case saveToStorage_try b store key v of
             Inl e \<Rightarrow> Inr b
           | Inr b' \<Rightarrow> Inr b'))"

definition persistState :: "jsobj \<Rightarrow> string list \<Rightarrow> jsobj" where
  "persistState state exclude =
     fold (\<lambda>key result.
             if key \<notin> set exclude then AList.update key (obj_get state key) result
             else result)
          (map fst state) []"

definition mergeWithDefaults :: "jsval \<Rightarrow> jsobj \<Rightarrow> string list \<Rightarrow> jsobj" where
  "mergeWithDefaults persistedState defaultState exclude =
     (if \<not> truthy persistedState then defaultState
      else fold (\<lambda>key result.
                   if key \<in> set exclude then result
                   else if js_get persistedState key \<noteq> JUndefined
                        then AList.update key (js_get persistedState key) result
                        else result)
                (map fst (js_entries persistedState)) defaultState)"

datatype storage_key =
  CHAT_STATE | SOLVER_STATE | QUESTION_STATE | RESEARCH_STATE | IDEAGEN_STATE
  | GUIDE_SESSION | COWRITER_CONTENT

fun STORAGE_KEYS :: "storage_key \<Rightarrow> string" where
  "STORAGE_KEYS CHAT_STATE = ''chat_state''"
| "STORAGE_KEYS SOLVER_STATE = ''solver_state''"
| "STORAGE_KEYS QUESTION_STATE = ''question_state''"
| "STORAGE_KEYS RESEARCH_STATE = ''research_state''"
| "STORAGE_KEYS IDEAGEN_STATE = ''ideagen_state''"
| "STORAGE_KEYS GUIDE_SESSION = ''guide_session''"
| "STORAGE_KEYS COWRITER_CONTENT = ''cowriter_content''"

datatype module = CHAT | SOLVER | QUESTION | RESEARCH | IDEAGEN | GUIDE

fun EXCLUDE_FIELDS :: "module \<Rightarrow> string list" where
  "EXCLUDE_FIELDS CHAT = [''isLoading'', ''currentStage'']"
| "EXCLUDE_FIELDS SOLVER = [''isSolving'', ''logs'', ''agentStatus'', ''tokenStats'', ''progress'']"
| "EXCLUDE_FIELDS QUESTION = [''logs'', ''progress'', ''agentStatus'', ''tokenStats'', ''uploadedFile'']"
| "EXCLUDE_FIELDS RESEARCH = [''status'', ''logs'', ''progress'']"
| "EXCLUDE_FIELDS IDEAGEN = [''isGenerating'', ''progress'']"
| "EXCLUDE_FIELDS GUIDE = [''isLoading'', ''loadingMessage'']"

text \<open>
  What \<^verbatim>\<open>JSON.parse(JSON.stringify(v))\<close> is for a value of this model: a property
  whose value is undefined is dropped, an undefined array element becomes null.
\<close>

fun json_norm :: "jsval \<Rightarrow> jsval" where
  "json_norm (JArr xs) = JArr (map (\<lambda>x. if x = JUndefined then JNull else json_norm x) xs)"
| "json_norm (JObj kvs) =
     JObj (map (\<lambda>kv. (fst kv, json_norm (snd kv))) (filter (\<lambda>kv. snd kv \<noteq> JUndefined) kvs))"
| "json_norm v = v"

section \<open>Hydration and the debounced save paths of GlobalProvider\<close>

text \<open>
  The provider keeps five persisted states. This part of the provider never looks inside
  a state beyond its property names, so a state is an object here.
\<close>

datatype channel = Solver | Question | Research | IdeaGen | Chat

fun channel_key :: "channel \<Rightarrow> string" where
  "channel_key Solver = STORAGE_KEYS SOLVER_STATE"
| "channel_key Question = STORAGE_KEYS QUESTION_STATE"
| "channel_key Research = STORAGE_KEYS RESEARCH_STATE"
| "channel_key IdeaGen = STORAGE_KEYS IDEAGEN_STATE"
| "channel_key Chat = STORAGE_KEYS CHAT_STATE"

fun channel_exclude :: "channel \<Rightarrow> string list" where
  "channel_exclude Solver = EXCLUDE_FIELDS SOLVER"
| "channel_exclude Question = EXCLUDE_FIELDS QUESTION"
| "channel_exclude Research = EXCLUDE_FIELDS RESEARCH"
| "channel_exclude IdeaGen = EXCLUDE_FIELDS IDEAGEN"
| "channel_exclude Chat = EXCLUDE_FIELDS CHAT"

text \<open>
  \<^verbatim>\<open>isHydrated\<close> is the ref of the provider; \<^verbatim>\<open>states\<close> are the five React states;
  \<^verbatim>\<open>pending\<close> holds, per channel, the argument of the last call of the debounced
  save function whose timer has not elapsed yet; \<^verbatim>\<open>sessionIdRef\<close> is the ref of the chat.
\<close>

record provider =
  isHydrated :: bool
  env :: browser
  states :: "channel \<Rightarrow> jsobj"
  pending :: "channel \<Rightarrow> jsobj option"
  sessionIdRef :: jsval

text \<open>
  The function handed to \<^verbatim>\<open>debounce\<close> in \<^verbatim>\<open>saveSolverState\<close>,
  \<^verbatim>\<open>saveQuestionState\<close>, \<^verbatim>\<open>saveResearchState\<close>, \<^verbatim>\<open>saveIdeaGenState\<close> and
  \<^verbatim>\<open>saveChatState\<close>: the five differ in the storage key and the exclusion list only.
\<close>

definition save_callback :: "channel \<Rightarrow> provider \<Rightarrow> jsobj \<Rightarrow> provider" where
  "save_callback ch p state =
     (if \<not> isHydrated p then p
      else (let toSave = persistState state (channel_exclude ch)
            in case saveToStorage (env p) (channel_key ch) (JObj toSave) of
                 Inl e \<Rightarrow> p
               | Inr b' \<Rightarrow> p\<lparr>env := b'\<rparr>))"

text \<open>
  Modelled from the spec: \<^verbatim>\<open>debounce\<close> of \<^verbatim>\<open>@/lib/debounce\<close> is not among the sources.
  It is the trailing-edge debounce of the specification: a call replaces the pending
  argument and restarts the timer; when the timer elapses the function runs once, on the
  latest argument.
\<close>

definition debounce_call :: "channel \<Rightarrow> jsobj \<Rightarrow> provider \<Rightarrow> provider" where
  "debounce_call ch state p = p\<lparr>pending := (pending p)(ch := Some state)\<rparr>"

definition debounce_elapsed :: "channel \<Rightarrow> provider \<Rightarrow> provider" where
  "debounce_elapsed ch p =
     (case pending p ch of
        None \<Rightarrow> p
      | Some state \<Rightarrow> save_callback ch (p\<lparr>pending := (pending p)(ch := None)\<rparr>) state)"

text \<open>The auto-save effect of a channel, run after a render in which its state changed.\<close>

definition autosave_effect :: "channel \<Rightarrow> provider \<Rightarrow> provider" where
  "autosave_effect ch p = (if isHydrated p then debounce_call ch (states p ch) p else p)"

definition set_state :: "channel \<Rightarrow> jsobj \<Rightarrow> provider \<Rightarrow> provider" where
  "set_state ch state p = autosave_effect ch (p\<lparr>states := (states p)(ch := state)\<rparr>)"

text \<open>The updater functions of the restore effect.\<close>

definition restore_merge :: "channel \<Rightarrow> jsval \<Rightarrow> jsobj \<Rightarrow> jsobj" where
  "restore_merge ch persisted prev = mergeWithDefaults persisted prev (channel_exclude ch)"

definition restore_research :: "jsval \<Rightarrow> jsobj \<Rightarrow> jsobj" where
  "restore_research persisted prev =
     (let merged = restore_merge Research persisted prev
      in if obj_get merged ''status'' = JStr ''running''
         then AList.update ''status'' (JStr ''idle'') merged
         else merged)"

definition restore_updater :: "channel \<Rightarrow> jsval \<Rightarrow> jsobj \<Rightarrow> jsobj" where
  "restore_updater ch persisted prev =
     (if ch = Research then restore_research persisted prev
      else restore_merge ch persisted prev)"

text \<open>
  One \<^verbatim>\<open>if (Object.keys(persisted).length > 0) setState(...)\<close> of the restore effect.
  \<^verbatim>\<open>Object.keys\<close> throws on null and undefined; the effect then stops where it is,
  with the states it has set so far. The chat's updater also copies a truthy
  \<^verbatim>\<open>sessionId\<close> into \<^verbatim>\<open>sessionIdRef\<close>.
\<close>

definition restore_channel :: "channel \<Rightarrow> jsval \<Rightarrow> provider \<Rightarrow> jsexn option \<times> provider" where
  "restore_channel ch persisted p =
     (case Object_keys persisted of
        Inl e \<Rightarrow> (Some e, p)
      | Inr ks \<Rightarrow>
          if length ks > 0 then
            (let merged = restore_updater ch persisted (states p ch);
                 p' = p\<lparr>states := (states p)(ch := merged)\<rparr>
             in (None,
                 if ch = Chat \<and> truthy (obj_get merged ''sessionId'')
                 then p'\<lparr>sessionIdRef := obj_get merged ''sessionId''\<rparr>
                 else p'))
          else (None, p))"

fun restore_all :: "(channel \<times> jsval) list \<Rightarrow> provider \<Rightarrow> jsexn option \<times> provider" where
  "restore_all [] p = (None, p)"
| "restore_all ((ch, persisted) # rest) p =
     (case restore_channel ch persisted p of
        (Some e, p') \<Rightarrow> (Some e, p')
      | (None, p') \<Rightarrow> restore_all rest p')"

definition load_persisted :: "browser \<Rightarrow> channel \<Rightarrow> jsval" where
  "load_persisted b ch =
     (case loadFromStorage b (channel_key ch) (JObj []) of Inl e \<Rightarrow> JObj [] | Inr v \<Rightarrow> v)"

text \<open>
  The restore effect, run once after mount: five loads, five conditional merges in the
  order solver, question, research, ideagen, chat, then the latch.
\<close>

definition restore_effect :: "provider \<Rightarrow> jsexn option \<times> provider" where
  "restore_effect p =
     (if window_localStorage (env p) = None then (None, p)
      else (case restore_all
                   (map (\<lambda>ch. (ch, load_persisted (env p) ch))
                      [Solver, Question, Research, IdeaGen, Chat]) p of
              (Some e, p') \<Rightarrow> (Some e, p')
            | (None, p') \<Rightarrow> (None, p'\<lparr>isHydrated := True\<rparr>)))"

text \<open>
  What can happen to the provider: a channel's state changes (and its auto-save effect
  runs), a debounce timer elapses, the restore effect runs.
\<close>

datatype provider_event =
    StateChanged channel jsobj
  | TimerElapsed channel
  | RestorePass

fun provider_step :: "provider_event \<Rightarrow> provider \<Rightarrow> provider" where
  "provider_step (StateChanged ch state) p = set_state ch state p"
| "provider_step (TimerElapsed ch) p = debounce_elapsed ch p"
| "provider_step RestorePass p = snd (restore_effect p)"

definition provider_run :: "provider_event list \<Rightarrow> provider \<Rightarrow> provider" where
  "provider_run evs p = fold provider_step evs p"

definition DEFAULT_QUESTION_STATE :: jsobj where
  "DEFAULT_QUESTION_STATE =
     [(''step'', JStr ''config''),
      (''mode'', JStr ''knowledge''),
      (''logs'', JArr []),
      (''results'', JArr []),
      (''topic'', JStr []),
      (''difficulty'', JStr ''medium''),
      (''type'', JStr ''choice''),
      (''count'', JNum 1),
      (''selectedKb'', JStr []),
      (''progress'', JObj [(''stage'', JNull), (''progress'', JObj []),
         (''subFocuses'', JArr []), (''activeQuestions'', JArr []),
         (''completedQuestions'', JNum 0), (''failedQuestions'', JNum 0)]),
      (''agentStatus'', JObj [(''QuestionGenerationAgent'', JStr ''pending''),
         (''ValidationWorkflow'', JStr ''pending''), (''RetrievalTool'', JStr ''pending'')]),
      (''tokenStats'', JObj [(''model'', JStr ''Unknown''), (''calls'', JNum 0),
         (''tokens'', JNum 0), (''input_tokens'', JNum 0), (''output_tokens'', JNum 0),
         (''cost'', JNum 0)]),
      (''uploadedFile'', JNull),
      (''paperPath'', JStr [])]"

section \<open>Concrete inputs for the examples\<close>

text \<open>
  A fragment of \<^verbatim>\<open>JSON.parse\<close> and \<^verbatim>\<open>JSON.stringify\<close>: the few texts the
  examples store, each with the value it denotes. Every other text does not parse, and
  every other value is not serialised, in the example browser.
\<close>

definition example_json :: "(string \<times> jsval) list" where
  \<open>example_json =
     [(''{"version":1,"data":7,"timestamp":0}'',
         JObj [(''version'', JNum 1), (''data'', JNum 7), (''timestamp'', JNum 0)]),
      (''{"version":0,"data":7,"timestamp":0}'',
         JObj [(''version'', JNum 0), (''data'', JNum 7), (''timestamp'', JNum 0)]),
      (''{"version":1,"data":{"selectedKb":"kb"},"timestamp":0}'',
         JObj [(''version'', JNum 1), (''data'', JObj [(''selectedKb'', JStr ''kb'')]),
               (''timestamp'', JNum 0)]),
      (''{"version":1,"data":{"step":"generating","topic":"graphs"},"timestamp":0}'',
         JObj [(''version'', JNum 1),
               (''data'', JObj [(''step'', JStr ''generating''), (''topic'', JStr ''graphs'')]),
               (''timestamp'', JNum 0)]),
      (''{"version":1,"data":{"session_id":"g1","isLoading":true},"timestamp":0}'',
         JObj [(''version'', JNum 1),
               (''data'', JObj [(''session_id'', JStr ''g1''), (''isLoading'', JBool True)]),
               (''timestamp'', JNum 0)])]\<close>

definition example_browser :: "(string \<rightharpoonup> string) option \<Rightarrow> bool \<Rightarrow> browser" where
  "example_browser store accepts =
     \<lparr>window_localStorage = store,
      setItem_accepts = (\<lambda>k s. accepts),
      JSON_parse = map_of example_json,
      JSON_stringify = map_of (map (\<lambda>(s, w). (w, s)) example_json),
      Date_now = 0\<rparr>"

definition initial_provider :: "browser \<Rightarrow> (channel \<Rightarrow> jsobj) \<Rightarrow> provider" where
  "initial_provider b defaults =
     \<lparr>isHydrated = False, env = b, states = defaults, pending = (\<lambda>ch. None),
      sessionIdRef = JNull\<rparr>"

definition stale_question_browser :: browser where
  \<open>stale_question_browser =
     example_browser
       (Some [''deeptutor_question_state'' \<mapsto>
          ''{"version":1,"data":{"step":"generating","topic":"graphs"},"timestamp":0}''])
       True\<close>

section \<open>More of JavaScript: coercion to string, operators, sockets\<close>

text \<open>
  The conversion of a value to a string, as a template literal, \<^verbatim>\<open>+=\<close> on a string
  and a computed property name apply it to what \<^verbatim>\<open>JSON.parse\<close> returned.

  An integer below \<^verbatim>\<open>1e21\<close> in magnitude is written with its digits; from there on
  \<^verbatim>\<open>Number.prototype.toString\<close> writes the digits up to the last one that is not
  zero, a point after the first, and the exponent. (This is for the integers a double
  prints digit for digit: those below \<^verbatim>\<open>2 ** 53\<close> in magnitude, and those of at most
  15 significant digits.)

  An array joins the conversions of its elements with commas, with nothing for undefined
  and null. An object is converted by the function \<^verbatim>\<open>toString\<close> it inherits, to
  "[object Object]"; where it has a property of its own with that name, the property is
  data and no function, \<^verbatim>\<open>valueOf\<close> gives no primitive either, and the conversion
  throws a TypeError.
\<close>

definition show_int :: "int \<Rightarrow> string" where
  "show_int n = (if n < 0 then CHR ''-'' # show_nat (nat (- n)) else show_nat (nat n))"

definition show_number :: "int \<Rightarrow> string" where
  "show_number n =
     (if \<bar>n\<bar> < 10 ^ 21 then show_int n
      else (let digits = show_nat (nat \<bar>n\<bar>);
                s = rev (dropWhile (\<lambda>c. c = CHR ''0'') (rev digits));
                mantissa = (if length s = 1 then s else hd s # CHR ''.'' # tl s)
            in (if n < 0 then ''-'' else []) @ mantissa @ ''e+'' @
               show_nat (length digits - 1)))"

fun join_with :: "string \<Rightarrow> string list \<Rightarrow> string" where
  "join_with sep [] = []"
| "join_with sep [x] = x"
| "join_with sep (x # y # ys) = x @ sep @ join_with sep (y # ys)"

fun js_to_string :: "jsval \<Rightarrow> jsexn + string"
  and js_to_strings :: "jsval list \<Rightarrow> jsexn + string list" where
  "js_to_string JUndefined = Inr ''undefined''"
| "js_to_string JNull = Inr ''null''"
| "js_to_string (JBool b) = Inr (if b then ''true'' else ''false'')"
| "js_to_string (JNum n) = Inr (show_number n)"
| "js_to_string (JStr s) = Inr s"
| "js_to_string (JArr xs) =
     (case js_to_strings xs of
        Inl e \<Rightarrow> Inl e
      | Inr parts \<Rightarrow> Inr (join_with '','' parts))"
| "js_to_string (JObj kvs) =
     (if ''toString'' \<in> fst ` set kvs then Inl TypeError else Inr ''[object Object]'')"
| "js_to_strings [] = Inr []"
| "js_to_strings (x # xs) =
     (case (if nullish x then Inr [] else js_to_string x) of
        Inl e \<Rightarrow> Inl e
      | Inr part \<Rightarrow>
          (case js_to_strings xs of
             Inl e \<Rightarrow> Inl e
           | Inr parts \<Rightarrow> Inr (part # parts)))"

text \<open>
  The values whose conversion throws: an object with a property named toString, and an
  array that has such a value among its elements.
\<close>

fun holds_toString :: "jsval \<Rightarrow> bool" where
  "holds_toString (JObj kvs) = (''toString'' \<in> fst ` set kvs)"
| "holds_toString (JArr xs) = (\<exists>x \<in> set xs. holds_toString x)"
| "holds_toString v = False"

text \<open>
  \<^verbatim>\<open>a || b\<close> and \<^verbatim>\<open>a ?? b\<close>; \<^verbatim>\<open>s.split(/[/\\]/)\<close>; \<^verbatim>\<open>s.trim()\<close> on ASCII white space.
\<close>

definition js_or :: "jsval \<Rightarrow> jsval \<Rightarrow> jsval" where
  "js_or a b = (if truthy a then a else b)"

definition js_nullish_or :: "jsval \<Rightarrow> jsval \<Rightarrow> jsval" where
  "js_nullish_or a b = (if nullish a then b else a)"

fun split_on :: "(char \<Rightarrow> bool) \<Rightarrow> string \<Rightarrow> string list" where
  "split_on sep [] = [[]]"
| "split_on sep (c # cs) =
     (if sep c then [] # split_on sep cs
      else (case split_on sep cs of [] \<Rightarrow> [[c]] | part # parts \<Rightarrow> (c # part) # parts))"

definition is_whitespace :: "char \<Rightarrow> bool" where
  "is_whitespace c = (c \<in> set [CHR '' '', CHR 0x09, CHR 0x0A, CHR 0x0B, CHR 0x0C, CHR 0x0D])"

definition js_trim :: "string \<Rightarrow> string" where
  "js_trim s = rev (dropWhile is_whitespace (rev (dropWhile is_whitespace s)))"

datatype ready_state = CONNECTING | OPEN | CLOSING | CLOSED

record 'c socket =
  readyState :: ready_state
  sent :: "jsval list"
  closure :: 'c

definition ws_new :: "'c \<Rightarrow> 'c socket list \<Rightarrow> 'c socket list" where
  "ws_new c socks = socks @ [\<lparr>readyState = CONNECTING, sent = [], closure = c\<rparr>]"

text \<open>
  \<^verbatim>\<open>ws.close()\<close> starts the closing handshake of a socket that is connecting or open
  and does nothing otherwise; \<^verbatim>\<open>ws.send(JSON.stringify(frame))\<close> on an open socket
  transmits the frame as its JSON text denotes it.
\<close>

definition ws_close :: "nat \<Rightarrow> 'c socket list \<Rightarrow> 'c socket list" where
  "ws_close i socks =
     (if i < length socks \<and> (readyState (socks ! i) = CONNECTING \<or> readyState (socks ! i) = OPEN)
      then socks[i := (socks ! i)\<lparr>readyState := CLOSING\<rparr>]
      else socks)"

definition ws_send :: "nat \<Rightarrow> jsval \<Rightarrow> 'c socket list \<Rightarrow> 'c socket list" where
  "ws_send i frame socks =
     (if i < length socks \<and> readyState (socks ! i) = OPEN
      then socks[i := (socks ! i)\<lparr>sent := sent (socks ! i) @ [json_norm frame]\<rparr>]
      else socks)"

definition ws_set_state :: "nat \<Rightarrow> ready_state \<Rightarrow> 'c socket list \<Rightarrow> 'c socket list" where
  "ws_set_state i rs socks = socks[i := (socks ! i)\<lparr>readyState := rs\<rparr>]"

definition live :: "'c socket \<Rightarrow> bool" where
  "live s = (readyState s = CONNECTING \<or> readyState s = OPEN)"

text \<open>
  What the browser reports for a socket. A message is JSON text; the handlers start with
  \<^verbatim>\<open>JSON.parse(event.data)\<close>, and the event carries what that call makes of the text
  (None: it throws a SyntaxError). A failed connection is reported as an error event
  followed by a close event, a closed one as a close event; in both the socket is CLOSED
  when its handlers run.
\<close>

datatype ws_event =
    WsOpened nat
  | WsMessage nat "jsval option"
  | WsFailed nat
  | WsClosed nat

text \<open>
  What a message handler makes of a message. Inr: it returns, and the world is as its
  statements and the state updates it queued leave it. Inl: an exception, and the world
  left behind. The exception is thrown by the handler itself, before any of its effects,
  or by a state updater when React runs it: then that update is lost, and the other
  statements of the handler have run.
\<close>

type_synonym 'w outcome = "(jsexn \<times> 'w) + 'w"

section \<open>The solver channel\<close>

record ChatMessage =
  role :: string
  content :: jsval
  outputDir :: jsval

record SolverState =
  sessionId :: jsval
  isSolving :: bool
  logs :: "jsval list"
  messages :: "ChatMessage list"
  question :: string
  selectedKb :: string
  agentStatus :: jsval
  tokenStats :: jsval
  progress :: jsobj

definition solver_agents :: "string \<Rightarrow> jsval" where
  "solver_agents s =
     JObj [(''InvestigateAgent'', JStr s), (''NoteAgent'', JStr s), (''ManagerAgent'', JStr s),
           (''SolveAgent'', JStr s), (''ToolAgent'', JStr s), (''ResponseAgent'', JStr s),
           (''PrecisionAnswerAgent'', JStr s)]"

definition unknown_token_stats :: jsval where
  "unknown_token_stats =
     JObj [(''model'', JStr ''Unknown''), (''calls'', JNum 0), (''tokens'', JNum 0),
           (''input_tokens'', JNum 0), (''output_tokens'', JNum 0), (''cost'', JNum 0)]"

definition no_progress :: jsobj where
  "no_progress = [(''stage'', JNull), (''progress'', JObj [])]"

definition DEFAULT_SOLVER_STATE :: SolverState where
  "DEFAULT_SOLVER_STATE =
     \<lparr>sessionId = JNull, isSolving = False, logs = [], messages = [], question = [],
      selectedKb = [], agentStatus = solver_agents ''pending'',
      tokenStats = unknown_token_stats, progress = no_progress\<rparr>"

text \<open>
  The solver's part of the provider: the React state, the ref \<^verbatim>\<open>solverWs\<close> (the index
  of a socket, or None for null), the ref \<^verbatim>\<open>solverSessionIdRef\<close>, and every socket
  \<^verbatim>\<open>startSolver\<close> has made, each with the \<^verbatim>\<open>question\<close> and \<^verbatim>\<open>kb\<close> its handlers
  closed over.
\<close>

record solver_world =
  solverState :: SolverState
  solverWs :: "nat option"
  solverSessionIdRef :: jsval
  solverSockets :: "(string \<times> string) socket list"

definition solver_initial :: solver_world where
  "solver_initial =
     \<lparr>solverState = DEFAULT_SOLVER_STATE, solverWs = None, solverSessionIdRef = JNull,
      solverSockets = []\<rparr>"

definition addSolverLog :: "jsval \<Rightarrow> solver_world \<Rightarrow> solver_world" where
  "addSolverLog entry w =
     w\<lparr>solverState := (solverState w)\<lparr>logs := logs (solverState w) @ [entry]\<rparr>\<rparr>"

definition startSolver :: "string \<Rightarrow> string \<Rightarrow> solver_world \<Rightarrow> solver_world" where
  "startSolver q kb w =
     (let socks = (case solverWs w of
                     None \<Rightarrow> solverSockets w
                   | Some current \<Rightarrow> ws_close current (solverSockets w));
          prev = solverState w;
          st = prev\<lparr>isSolving := True,
                    logs := [],
                    messages := messages prev @
                      [\<lparr>role = ''user'', content = JStr q, outputDir = JUndefined\<rparr>],
                    question := q,
                    selectedKb := kb,
                    agentStatus := solver_agents ''pending'',
                    tokenStats := unknown_token_stats,
                    progress := no_progress\<rparr>
      in w\<lparr>solverState := st,
            solverWs := Some (length socks),
            solverSockets := ws_new (q, kb) socks\<rparr>)"

definition solver_onopen :: "nat \<Rightarrow> solver_world \<Rightarrow> solver_world" where
  "solver_onopen ws w =
     (let q = fst (closure (solverSockets w ! ws));
          kb = snd (closure (solverSockets w ! ws));
          frame = JObj [(''question'', JStr q), (''kb_name'', JStr kb),
                        (''session_id'', solverSessionIdRef w)]
      in addSolverLog
           (JObj [(''type'', JStr ''system''), (''content'', JStr ''Initializing connection...'')])
           (w\<lparr>solverSockets := ws_send ws frame (solverSockets w)\<rparr>))"

definition is_path_separator :: "char \<Rightarrow> bool" where
  "is_path_separator c = (c = CHR ''/'' \<or> c = CHR 0x5C)"

text \<open>
  \<^verbatim>\<open>dirName\<close> of the result branch. \<^verbatim>\<open>data.output_dir.split\<close> is a function only
  on a string: any other truthy value makes the call throw a TypeError.
\<close>

definition result_dirName :: "jsval \<Rightarrow> jsexn + jsval" where
  "result_dirName data =
     (let dirName = js_or (js_get data ''output_dir_name'') (JStr [])
      in if \<not> truthy dirName \<and> truthy (js_get data ''output_dir'')
         then (case js_get data ''output_dir'' of
                 JStr s \<Rightarrow> Inr (JStr (last (split_on is_path_separator s)))
               | _ \<Rightarrow> Inl TypeError)
         else Inr dirName)"

definition solver_onmessage :: "nat \<Rightarrow> jsval option \<Rightarrow> solver_world \<Rightarrow> solver_world outcome" where
  "solver_onmessage ws parsed w =
     (case parsed of
        None \<Rightarrow> Inl (SyntaxError, w)
      | Some data \<Rightarrow>
     (case js_member data ''type'' of
        Inl e \<Rightarrow> Inl (e, w)
      | Inr ty \<Rightarrow>
          let prev = solverState w in
          if ty = JStr ''session'' then
            Inr (w\<lparr>solverSessionIdRef := js_get data ''session_id'',
                   solverState := prev\<lparr>sessionId := js_get data ''session_id''\<rparr>\<rparr>)
          else if ty = JStr ''log'' then
            Inr (addSolverLog data w)
          else if ty = JStr ''agent_status'' then
            (if truthy (js_get data ''all_agents'')
             then Inr (w\<lparr>solverState := prev\<lparr>agentStatus := js_get data ''all_agents''\<rparr>\<rparr>)
             else (case js_to_string (js_get data ''agent'') of
                     Inl e \<Rightarrow> Inl (e, w)
                   | Inr name \<Rightarrow>
                       Inr (w\<lparr>solverState := prev\<lparr>agentStatus :=
                              JObj (AList.update name (js_get data ''status'')
                                      (js_entries (agentStatus prev)))\<rparr>\<rparr>)))
          else if ty = JStr ''token_stats'' then
            Inr (w\<lparr>solverState := prev\<lparr>tokenStats :=
                   js_or (js_get data ''stats'') (tokenStats prev)\<rparr>\<rparr>)
          else if ty = JStr ''progress'' then
            Inr (w\<lparr>solverState := prev\<lparr>progress :=
                   [(''stage'', js_get data ''stage''),
                    (''progress'', js_or (js_get data ''progress'') (JObj []))]\<rparr>\<rparr>)
          else if ty = JStr ''result'' then
            (case result_dirName data of
               Inl e \<Rightarrow> Inl (e, w)
             | Inr dirName \<Rightarrow>
                 Inr (w\<lparr>solverState := prev\<lparr>
                          sessionId := js_or (js_get data ''session_id'') (sessionId prev),
                          messages := messages prev @
                            [\<lparr>role = ''assistant'', content = js_get data ''final_answer'',
                              outputDir = dirName\<rparr>],
                          isSolving := False\<rparr>,
                        solverSockets := ws_close ws (solverSockets w)\<rparr>))
          else if ty = JStr ''error'' then
            (case js_to_string
                    (js_or (js_or (js_get data ''content'') (js_get data ''message''))
                       (JStr ''Unknown error'')) of
               Inl e \<Rightarrow> Inl (e, w)
             | Inr reason \<Rightarrow>
                 Inr (let w' = addSolverLog
                          (JObj [(''type'', JStr ''error''),
                                 (''content'', JStr (''Error: '' @ reason))]) w
                      in w'\<lparr>solverState := (solverState w')\<lparr>isSolving := False\<rparr>\<rparr>))
          else Inr w))"

definition solver_onerror :: "nat \<Rightarrow> solver_world \<Rightarrow> solver_world" where
  "solver_onerror ws w =
     (let w' = addSolverLog
                 (JObj [(''type'', JStr ''error''), (''content'', JStr ''Connection error'')]) w
      in w'\<lparr>solverState := (solverState w')\<lparr>isSolving := False,
                                              agentStatus := solver_agents ''error'',
                                              progress := no_progress\<rparr>\<rparr>)"

definition solver_onclose :: "nat \<Rightarrow> solver_world \<Rightarrow> solver_world" where
  "solver_onclose ws w = (if solverWs w = Some ws then w\<lparr>solverWs := None\<rparr> else w)"

definition stopSolver :: "solver_world \<Rightarrow> solver_world" where
  "stopSolver w =
     (let w1 = (case solverWs w of
                  None \<Rightarrow> w
                | Some current \<Rightarrow>
                    w\<lparr>solverSockets := ws_close current (solverSockets w), solverWs := None\<rparr>);
          w2 = w1\<lparr>solverState := (solverState w1)\<lparr>isSolving := False\<rparr>\<rparr>
      in addSolverLog
           (JObj [(''type'', JStr ''system''), (''content'', JStr ''Solver stopped by user.'')]) w2)"

definition newSolverSession :: "solver_world \<Rightarrow> solver_world" where
  "newSolverSession w =
     (let w1 = (case solverWs w of
                  None \<Rightarrow> w
                | Some current \<Rightarrow>
                    w\<lparr>solverSockets := ws_close current (solverSockets w), solverWs := None\<rparr>)
      in w1\<lparr>solverSessionIdRef := JNull,
             solverState := DEFAULT_SOLVER_STATE\<lparr>selectedKb := selectedKb (solverState w)\<rparr>\<rparr>)"

text \<open>
  How the browser delivers an event to the handlers \<^verbatim>\<open>startSolver\<close> installed. An open
  event comes to a connecting socket only, a message to an open socket only: after
  \<^verbatim>\<open>close()\<close> the browser delivers no message. An exception is reported, and the
  world is as it left it.
\<close>

fun solver_deliver :: "ws_event \<Rightarrow> solver_world \<Rightarrow> solver_world" where
  "solver_deliver (WsOpened ws) w =
     (if ws < length (solverSockets w) \<and> readyState (solverSockets w ! ws) = CONNECTING
      then solver_onopen ws (w\<lparr>solverSockets := ws_set_state ws OPEN (solverSockets w)\<rparr>)
      else w)"
| "solver_deliver (WsMessage ws parsed) w =
     (if ws < length (solverSockets w) \<and> readyState (solverSockets w ! ws) = OPEN
      then (case solver_onmessage ws parsed w of Inl ew \<Rightarrow> snd ew | Inr w' \<Rightarrow> w')
      else w)"
| "solver_deliver (WsFailed ws) w =
     (if ws < length (solverSockets w) \<and> readyState (solverSockets w ! ws) \<noteq> CLOSED
      then solver_onclose ws (solver_onerror ws
             (w\<lparr>solverSockets := ws_set_state ws CLOSED (solverSockets w)\<rparr>))
      else w)"
| "solver_deliver (WsClosed ws) w =
     (if ws < length (solverSockets w) \<and> readyState (solverSockets w ! ws) \<noteq> CLOSED
      then solver_onclose ws (w\<lparr>solverSockets := ws_set_state ws CLOSED (solverSockets w)\<rparr>)
      else w)"

datatype solver_action =
    StartSolver string string
  | StopSolver
  | NewSolverSession
  | SolverSocket ws_event

fun solver_step :: "solver_action \<Rightarrow> solver_world \<Rightarrow> solver_world" where
  "solver_step (StartSolver q kb) w = startSolver q kb w"
| "solver_step StopSolver w = stopSolver w"
| "solver_step NewSolverSession w = newSolverSession w"
| "solver_step (SolverSocket ev) w = solver_deliver ev w"

definition live_sockets :: "'c socket list \<Rightarrow> nat list" where
  "live_sockets socks = filter (\<lambda>i. live (socks ! i)) [0..<length socks]"

section \<open>The research channel\<close>

record ResearchState =
  status :: string
  logs :: "jsval list"
  report :: jsval
  topic :: string
  selectedKb :: string
  progress :: jsobj

definition blank_research_progress :: jsobj where
  "blank_research_progress =
     [(''stage'', JNull), (''status'', JStr []), (''executionMode'', JUndefined),
      (''totalBlocks'', JUndefined), (''currentBlock'', JUndefined),
      (''currentSubTopic'', JUndefined), (''currentBlockId'', JUndefined),
      (''iterations'', JUndefined), (''maxIterations'', JUndefined),
      (''toolsUsed'', JUndefined), (''currentTool'', JUndefined),
      (''currentQuery'', JUndefined), (''currentRationale'', JUndefined),
      (''queriesUsed'', JUndefined), (''activeTasks'', JUndefined),
      (''activeCount'', JUndefined), (''completedCount'', JUndefined),
      (''keptBlocks'', JUndefined), (''sections'', JUndefined), (''wordCount'', JUndefined),
      (''citations'', JUndefined)]"

definition DEFAULT_RESEARCH_STATE :: ResearchState where
  "DEFAULT_RESEARCH_STATE =
     \<lparr>status = ''idle'', logs = [], report = JNull, topic = [], selectedKb = [],
      progress = blank_research_progress\<rparr>"

text \<open>The arguments of \<^verbatim>\<open>startResearch\<close>, which the handlers of its socket close over.\<close>

record research_request =
  req_topic :: string
  req_kb :: string
  planMode :: string
  enabledTools :: "string list"
  skipRephrase :: bool

record research_world =
  researchState :: ResearchState
  researchWs :: "nat option"
  researchSockets :: "research_request socket list"

definition research_initial :: research_world where
  "research_initial =
     \<lparr>researchState = DEFAULT_RESEARCH_STATE, researchWs = None, researchSockets = []\<rparr>"

definition addResearchLog :: "jsval \<Rightarrow> research_world \<Rightarrow> research_world" where
  "addResearchLog entry w =
     w\<lparr>researchState := (researchState w)\<lparr>logs := logs (researchState w) @ [entry]\<rparr>\<rparr>"

definition startResearch :: "research_request \<Rightarrow> research_world \<Rightarrow> research_world" where
  "startResearch req w =
     (let socks = (case researchWs w of
                     None \<Rightarrow> researchSockets w
                   | Some current \<Rightarrow> ws_close current (researchSockets w));
          prev = researchState w;
          st = prev\<lparr>status := ''running'',
                    logs := [],
                    report := JNull,
                    topic := req_topic req,
                    selectedKb := req_kb req,
                    progress := blank_research_progress\<rparr>
      in w\<lparr>researchState := st,
            researchWs := Some (length socks),
            researchSockets := ws_new req socks\<rparr>)"

definition research_onopen :: "nat \<Rightarrow> research_world \<Rightarrow> research_world" where
  "research_onopen ws w =
     (let req = closure (researchSockets w ! ws);
          frame = JObj [(''topic'', JStr (req_topic req)), (''kb_name'', JStr (req_kb req)),
                        (''plan_mode'', JStr (planMode req)),
                        (''enabled_tools'', JArr (map JStr (enabledTools req))),
                        (''skip_rephrase'', JBool (skipRephrase req))]
      in addResearchLog
           (JObj [(''type'', JStr ''system''),
                  (''content'', JStr (''Starting Research Pipeline (Plan: '' @ planMode req @
                     '', Tools: '' @ join_with ''+'' (enabledTools req) @ '', Optimization: '' @
                     (if \<not> skipRephrase req then ''On'' else ''Off/Pre-done'') @ '')...''))])
           (w\<lparr>researchSockets := ws_send ws frame (researchSockets w)\<rparr>))"

fun map_exn :: "('a \<Rightarrow> jsexn + 'b) \<Rightarrow> 'a list \<Rightarrow> jsexn + 'b list" where
  "map_exn f [] = Inr []"
| "map_exn f (x # xs) =
     (case f x of
        Inl e \<Rightarrow> Inl e
      | Inr y \<Rightarrow> (case map_exn f xs of Inl e \<Rightarrow> Inl e | Inr ys \<Rightarrow> Inr (y # ys)))"

text \<open>
  \<^verbatim>\<open>v?.map(f) ?? fallback\<close>: the fallback for undefined and null, the mapped array for
  an array, a TypeError for anything else (it has no function \<^verbatim>\<open>map\<close>).
\<close>

definition optional_map :: "(jsval \<Rightarrow> jsexn + jsval) \<Rightarrow> jsval \<Rightarrow> jsval \<Rightarrow> jsexn + jsval" where
  "optional_map f v fallback =
     (if nullish v then Inr fallback
      else (case v of
              JArr xs \<Rightarrow> (case map_exn f xs of Inl e \<Rightarrow> Inl e | Inr ys \<Rightarrow> Inr (JArr ys))
            | _ \<Rightarrow> Inl TypeError))"

definition active_task_info :: "jsval \<Rightarrow> jsexn + jsval" where
  "active_task_info t =
     (if nullish t then Inl TypeError
      else Inr (JObj [(''block_id'', js_get t ''block_id''),
                      (''sub_topic'', js_get t ''sub_topic''),
                      (''status'', js_get t ''status''),
                      (''iteration'', js_or (js_get t ''iteration'') (JNum 0)),
                      (''max_iterations'', js_get t ''max_iterations''),
                      (''current_tool'', js_get t ''current_tool''),
                      (''current_query'', js_get t ''current_query''),
                      (''tools_used'', js_get t ''tools_used'')]))"

definition query_info :: "jsval \<Rightarrow> jsexn + jsval" where
  "query_info q =
     (if nullish q then Inl TypeError
      else Inr (JObj [(''query'', js_get q ''query''),
                      (''tool_type'', js_get q ''tool_type''),
                      (''rationale'', js_get q ''rationale''),
                      (''iteration'', js_get q ''iteration'')]))"

text \<open>The updater of the progress branch.\<close>

definition research_progress_update :: "jsval \<Rightarrow> ResearchState \<Rightarrow> jsexn + ResearchState" where
  "research_progress_update data prev =
     (case optional_map active_task_info (js_get data ''active_tasks'')
             (obj_get (progress prev) ''activeTasks'') of
        Inl e \<Rightarrow> Inl e
      | Inr activeTasks \<Rightarrow>
     (case optional_map query_info (js_get data ''queries_used'')
             (obj_get (progress prev) ''queriesUsed'') of
        Inl e \<Rightarrow> Inl e
      | Inr queriesUsed \<Rightarrow>
          let old = (\<lambda>k. obj_get (progress prev) k);
              new = (\<lambda>k. js_get data k)
          in Inr (prev\<lparr>progress :=
               [(''stage'', new ''stage''),
                (''status'', new ''status''),
                (''executionMode'', js_nullish_or (new ''execution_mode'') (old ''executionMode'')),
                (''totalBlocks'', js_nullish_or (new ''total_blocks'') (old ''totalBlocks'')),
                (''currentBlock'', js_nullish_or (new ''current_block'') (old ''currentBlock'')),
                (''currentSubTopic'', js_nullish_or (new ''sub_topic'') (old ''currentSubTopic'')),
                (''currentBlockId'', js_nullish_or (new ''block_id'') (old ''currentBlockId'')),
                (''iterations'',
                   js_nullish_or (js_nullish_or (new ''iteration'') (new ''iterations''))
                     (old ''iterations'')),
                (''maxIterations'', js_nullish_or (new ''max_iterations'') (old ''maxIterations'')),
                (''toolsUsed'', js_nullish_or (new ''tools_used'') (old ''toolsUsed'')),
                (''currentTool'', js_nullish_or (new ''tool_type'') (old ''currentTool'')),
                (''currentQuery'', js_nullish_or (new ''query'') (old ''currentQuery'')),
                (''currentRationale'', js_nullish_or (new ''rationale'') (old ''currentRationale'')),
                (''queriesUsed'', queriesUsed),
                (''activeTasks'', activeTasks),
                (''activeCount'', js_nullish_or (new ''active_count'') (old ''activeCount'')),
                (''completedCount'',
                   js_nullish_or (new ''completed_count'') (old ''completedCount'')),
                (''keptBlocks'', js_nullish_or (new ''kept_blocks'') (old ''keptBlocks'')),
                (''sections'', js_nullish_or (new ''sections'') (old ''sections'')),
                (''wordCount'', js_nullish_or (new ''word_count'') (old ''wordCount'')),
                (''citations'', js_nullish_or (new ''citations'') (old ''citations''))]\<rparr>)))"

definition research_onmessage ::
  "nat \<Rightarrow> jsval option \<Rightarrow> research_world \<Rightarrow> research_world outcome" where
  "research_onmessage ws parsed w =
     (case parsed of
        None \<Rightarrow> Inl (SyntaxError, w)
      | Some data \<Rightarrow>
     (case js_member data ''type'' of
        Inl e \<Rightarrow> Inl (e, w)
      | Inr ty \<Rightarrow>
          let prev = researchState w in
          if ty = JStr ''log'' then
            Inr (addResearchLog data w)
          else if ty = JStr ''progress'' then
            (case research_progress_update data prev of
               Inl e \<Rightarrow> Inl (e, w)
             | Inr st \<Rightarrow> Inr (w\<lparr>researchState := st\<rparr>))
          else if ty = JStr ''result'' then
            Inr (w\<lparr>researchState := prev\<lparr>status := ''completed'',
                                           report := js_get data ''report''\<rparr>,
                   researchSockets := ws_close ws (researchSockets w)\<rparr>)
          else if ty = JStr ''error'' then
            (case js_to_string
                    (js_or (js_or (js_get data ''content'') (js_get data ''message''))
                       (JStr ''Unknown error'')) of
               Inl e \<Rightarrow> Inl (e, w)
             | Inr reason \<Rightarrow>
                 Inr (let w' = addResearchLog
                          (JObj [(''type'', JStr ''error''),
                                 (''content'', JStr (''Error: '' @ reason))]) w
                      in w'\<lparr>researchState := (researchState w')\<lparr>status := ''idle''\<rparr>\<rparr>))
          else Inr w))"

definition research_onerror :: "nat \<Rightarrow> research_world \<Rightarrow> research_world" where
  "research_onerror ws w =
     (let w' = addResearchLog
                 (JObj [(''type'', JStr ''error''),
                        (''content'', JStr ''WebSocket connection error'')]) w
      in w'\<lparr>researchState := (researchState w')\<lparr>
              status := ''idle'',
              progress := [(''stage'', JNull), (''status'', JStr []),
                           (''executionMode'', JUndefined), (''activeTasks'', JUndefined)]\<rparr>\<rparr>)"

definition research_onclose :: "nat \<Rightarrow> research_world \<Rightarrow> research_world" where
  "research_onclose ws w = (if researchWs w = Some ws then w\<lparr>researchWs := None\<rparr> else w)"

fun research_deliver :: "ws_event \<Rightarrow> research_world \<Rightarrow> research_world" where
  "research_deliver (WsOpened ws) w =
     (if ws < length (researchSockets w) \<and> readyState (researchSockets w ! ws) = CONNECTING
      then research_onopen ws (w\<lparr>researchSockets := ws_set_state ws OPEN (researchSockets w)\<rparr>)
      else w)"
| "research_deliver (WsMessage ws parsed) w =
     (if ws < length (researchSockets w) \<and> readyState (researchSockets w ! ws) = OPEN
      then (case research_onmessage ws parsed w of Inl ew \<Rightarrow> snd ew | Inr w' \<Rightarrow> w')
      else w)"
| "research_deliver (WsFailed ws) w =
     (if ws < length (researchSockets w) \<and> readyState (researchSockets w ! ws) \<noteq> CLOSED
      then research_onclose ws (research_onerror ws
             (w\<lparr>researchSockets := ws_set_state ws CLOSED (researchSockets w)\<rparr>))
      else w)"
| "research_deliver (WsClosed ws) w =
     (if ws < length (researchSockets w) \<and> readyState (researchSockets w ! ws) \<noteq> CLOSED
      then research_onclose ws
             (w\<lparr>researchSockets := ws_set_state ws CLOSED (researchSockets w)\<rparr>)
      else w)"

section \<open>The chat channel\<close>

record HomeChatMessage =
  role :: string
  content :: jsval
  sources :: jsval
  isStreaming :: "bool option"

record ChatState =
  sessionId :: jsval
  messages :: "HomeChatMessage list"
  isLoading :: bool
  selectedKb :: string
  enableRag :: bool
  enableWebSearch :: bool
  currentStage :: jsval

definition DEFAULT_CHAT_STATE :: ChatState where
  "DEFAULT_CHAT_STATE =
     \<lparr>sessionId = JNull, messages = [], isLoading = False, selectedKb = [],
      enableRag = False, enableWebSearch = False, currentStage = JNull\<rparr>"

text \<open>
  What the handlers of a chat socket close over: the \<^verbatim>\<open>message\<close>, the
  \<^verbatim>\<open>chatState\<close> of the render in which \<^verbatim>\<open>sendChatMessage\<close> was called, and the
  variable \<^verbatim>\<open>assistantMessage\<close>, which the stream branch assigns.
\<close>

record chat_closure =
  message :: string
  rendered :: ChatState
  assistantMessage :: string

record chat_world =
  chatState :: ChatState
  chatWs :: "nat option"
  sessionIdRef :: jsval
  chatSockets :: "chat_closure socket list"

definition chat_initial :: chat_world where
  "chat_initial =
     \<lparr>chatState = DEFAULT_CHAT_STATE, chatWs = None, sessionIdRef = JNull, chatSockets = []\<rparr>"

text \<open>
  \<^verbatim>\<open>chatState\<close> in the body of \<^verbatim>\<open>sendChatMessage\<close> is the state of the last render,
  taken here to be the current state.
\<close>

definition sendChatMessage :: "string \<Rightarrow> chat_world \<Rightarrow> chat_world" where
  "sendChatMessage msg w =
     (if js_trim msg = [] \<or> isLoading (chatState w) then w
      else (let prev = chatState w;
                st = prev\<lparr>isLoading := True,
                          currentStage := JStr ''connecting'',
                          messages := messages prev @
                            [\<lparr>role = ''user'', content = JStr msg, sources = JUndefined,
                              isStreaming = None\<rparr>]\<rparr>;
                socks = (case chatWs w of
                           None \<Rightarrow> chatSockets w
                         | Some current \<Rightarrow> ws_close current (chatSockets w))
            in w\<lparr>chatState := st,
                  chatWs := Some (length socks),
                  chatSockets := ws_new
                    \<lparr>message = msg, rendered = chatState w, assistantMessage = []\<rparr> socks\<rparr>))"

definition chat_onopen :: "nat \<Rightarrow> chat_world \<Rightarrow> chat_world" where
  "chat_onopen ws w =
     (let c = closure (chatSockets w ! ws);
          history = map (\<lambda>m. JObj [(''role'', JStr (role m)), (''content'', content m)])
                      (messages (rendered c));
          frame = JObj [(''message'', JStr (message c)),
                        (''session_id'', sessionIdRef w),
                        (''history'', JArr history),
                        (''kb_name'', JStr (selectedKb (rendered c))),
                        (''enable_rag'', JBool (enableRag (rendered c))),
                        (''enable_web_search'', JBool (enableWebSearch (rendered c)))]
      in w\<lparr>chatSockets := ws_send ws frame (chatSockets w)\<rparr>)"

text \<open>The updater of the stream branch, on the value \<^verbatim>\<open>assistantMessage\<close> has by then.\<close>

definition chat_stream_update :: "string \<Rightarrow> ChatState \<Rightarrow> ChatState" where
  "chat_stream_update assistant prev =
     (let ms = messages prev
      in if ms \<noteq> [] \<and> role (last ms) = ''assistant'' \<and> isStreaming (last ms) = Some True
         then prev\<lparr>messages := butlast ms @ [(last ms)\<lparr>content := JStr assistant\<rparr>],
                   currentStage := JStr ''generating''\<rparr>
         else prev\<lparr>messages := ms @
                     [\<lparr>role = ''assistant'', content = JStr assistant, sources = JUndefined,
                       isStreaming = Some True\<rparr>],
                   currentStage := JStr ''generating''\<rparr>)"

definition chat_sources_update :: "jsval \<Rightarrow> ChatState \<Rightarrow> ChatState" where
  "chat_sources_update data prev =
     (let ms = messages prev
      in if ms \<noteq> [] \<and> role (last ms) = ''assistant''
         then prev\<lparr>messages := butlast ms @
                [(last ms)\<lparr>sources := JObj [(''rag'', js_get data ''rag''),
                                             (''web'', js_get data ''web'')]\<rparr>]\<rparr>
         else prev)"

definition chat_result_update :: "jsval \<Rightarrow> ChatState \<Rightarrow> ChatState" where
  "chat_result_update data prev =
     (let ms = messages prev;
          ms' = (if ms \<noteq> [] \<and> role (last ms) = ''assistant''
                 then butlast ms @
                   [(last ms)\<lparr>content := js_get data ''content'', isStreaming := Some False\<rparr>]
                 else ms)
      in prev\<lparr>messages := ms', isLoading := False, currentStage := JNull\<rparr>)"

text \<open>
  In the stream branch the conversion of \<^verbatim>\<open>data.content\<close> is the first statement. In
  the error branch the template literal is inside the updater, and the handler goes on to
  close the socket.
\<close>

definition chat_onmessage :: "nat \<Rightarrow> jsval option \<Rightarrow> chat_world \<Rightarrow> chat_world outcome" where
  "chat_onmessage ws parsed w =
     (case parsed of
        None \<Rightarrow> Inl (SyntaxError, w)
      | Some data \<Rightarrow>
     (case js_member data ''type'' of
        Inl e \<Rightarrow> Inl (e, w)
      | Inr ty \<Rightarrow>
          let prev = chatState w in
          if ty = JStr ''session'' then
            Inr (w\<lparr>sessionIdRef := js_get data ''session_id'',
                   chatState := prev\<lparr>sessionId := js_get data ''session_id''\<rparr>\<rparr>)
          else if ty = JStr ''status'' then
            Inr (w\<lparr>chatState := prev\<lparr>currentStage :=
                   js_or (js_get data ''stage'') (js_get data ''message'')\<rparr>\<rparr>)
          else if ty = JStr ''stream'' then
            (case js_to_string (js_get data ''content'') of
               Inl e \<Rightarrow> Inl (e, w)
             | Inr delta \<Rightarrow>
                 Inr (let c = closure (chatSockets w ! ws);
                          assistant = assistantMessage c @ delta
                      in w\<lparr>chatSockets := (chatSockets w)
                              [ws := (chatSockets w ! ws)\<lparr>closure := c\<lparr>assistantMessage := assistant\<rparr>\<rparr>],
                            chatState := chat_stream_update assistant prev\<rparr>))
          else if ty = JStr ''sources'' then
            Inr (w\<lparr>chatState := chat_sources_update data prev\<rparr>)
          else if ty = JStr ''result'' then
            Inr (w\<lparr>chatState := chat_result_update data prev,
                   chatSockets := ws_close ws (chatSockets w)\<rparr>)
          else if ty = JStr ''error'' then
            (case js_to_string (js_get data ''message'') of
               Inl e \<Rightarrow> Inl (e, w\<lparr>chatSockets := ws_close ws (chatSockets w)\<rparr>)
             | Inr reason \<Rightarrow>
                 Inr (w\<lparr>chatState := prev\<lparr>isLoading := False,
                                            currentStage := JNull,
                                            messages := messages prev @
                                              [\<lparr>role = ''assistant'',
                                                content = JStr (''Error: '' @ reason),
                                                sources = JUndefined, isStreaming = None\<rparr>]\<rparr>,
                        chatSockets := ws_close ws (chatSockets w)\<rparr>))
          else Inr w))"

definition chat_onerror :: "nat \<Rightarrow> chat_world \<Rightarrow> chat_world" where
  "chat_onerror ws w =
     w\<lparr>chatState := (chatState w)\<lparr>
          isLoading := False,
          currentStage := JNull,
          messages := messages (chatState w) @
            [\<lparr>role = ''assistant'', content = JStr ''Connection error. Please try again.'',
              sources = JUndefined, isStreaming = None\<rparr>]\<rparr>\<rparr>"

definition chat_onclose :: "nat \<Rightarrow> chat_world \<Rightarrow> chat_world" where
  "chat_onclose ws w =
     (let w' = (if chatWs w = Some ws then w\<lparr>chatWs := None\<rparr> else w)
      in w'\<lparr>chatState := (chatState w')\<lparr>isLoading := False, currentStage := JNull\<rparr>\<rparr>)"

definition clearChatHistory :: "chat_world \<Rightarrow> chat_world" where
  "clearChatHistory w =
     w\<lparr>sessionIdRef := JNull,
       chatState := (chatState w)\<lparr>sessionId := JNull, messages := [], currentStage := JNull\<rparr>\<rparr>"

definition newChatSession :: "chat_world \<Rightarrow> chat_world" where
  "newChatSession w =
     (let w1 = (case chatWs w of
                  None \<Rightarrow> w
                | Some current \<Rightarrow>
                    w\<lparr>chatSockets := ws_close current (chatSockets w), chatWs := None\<rparr>)
      in w1\<lparr>sessionIdRef := JNull,
             chatState := (chatState w1)\<lparr>sessionId := JNull, messages := [],
                                           isLoading := False, currentStage := JNull\<rparr>\<rparr>)"

fun chat_deliver :: "ws_event \<Rightarrow> chat_world \<Rightarrow> chat_world" where
  "chat_deliver (WsOpened ws) w =
     (if ws < length (chatSockets w) \<and> readyState (chatSockets w ! ws) = CONNECTING
      then chat_onopen ws (w\<lparr>chatSockets := ws_set_state ws OPEN (chatSockets w)\<rparr>)
      else w)"
| "chat_deliver (WsMessage ws parsed) w =
     (if ws < length (chatSockets w) \<and> readyState (chatSockets w ! ws) = OPEN
      then (case chat_onmessage ws parsed w of Inl ew \<Rightarrow> snd ew | Inr w' \<Rightarrow> w')
      else w)"
| "chat_deliver (WsFailed ws) w =
     (if ws < length (chatSockets w) \<and> readyState (chatSockets w ! ws) \<noteq> CLOSED
      then chat_onclose ws (chat_onerror ws
             (w\<lparr>chatSockets := ws_set_state ws CLOSED (chatSockets w)\<rparr>))
      else w)"
| "chat_deliver (WsClosed ws) w =
     (if ws < length (chatSockets w) \<and> readyState (chatSockets w ! ws) \<noteq> CLOSED
      then chat_onclose ws (w\<lparr>chatSockets := ws_set_state ws CLOSED (chatSockets w)\<rparr>)
      else w)"

text \<open>
  What a stream frame adds to \<^verbatim>\<open>assistantMessage\<close>: the text of its content, and
  nothing where the conversion throws.
\<close>

definition stream_text :: "jsval \<Rightarrow> string" where
  "stream_text f =
     (case js_to_string (js_get f ''content'') of Inl e \<Rightarrow> [] | Inr delta \<Rightarrow> delta)"

datatype chat_action =
    SendChatMessage string
  | ClearChatHistory
  | NewChatSession
  | ChatSocket ws_event

fun chat_step :: "chat_action \<Rightarrow> chat_world \<Rightarrow> chat_world" where
  "chat_step (SendChatMessage msg) w = sendChatMessage msg w"
| "chat_step ClearChatHistory w = clearChatHistory w"
| "chat_step NewChatSession w = newChatSession w"
| "chat_step (ChatSocket ev) w = chat_deliver ev w"

definition chat_run :: "chat_action list \<Rightarrow> chat_world \<Rightarrow> chat_world" where
  "chat_run acts w = fold chat_step acts w"

text \<open>
  The values of the type of a session id, \<^verbatim>\<open>string | null\<close>. An action that is no
  session event, or a session event whose session_id is of that type.
\<close>

fun is_session_id :: "jsval \<Rightarrow> bool" where
  "is_session_id JNull = True"
| "is_session_id (JStr s) = True"
| "is_session_id v = False"

fun carries_session_id :: "chat_action \<Rightarrow> bool" where
  "carries_session_id (ChatSocket (WsMessage ws (Some data))) =
     (js_get data ''type'' = JStr ''session'' \<longrightarrow> is_session_id (js_get data ''session_id''))"
| "carries_session_id a = True"

text \<open>The ref of the chat holds the session id of the chat's state.\<close>

definition chat_synced :: "chat_world \<Rightarrow> bool" where
  "chat_synced w =
     (sessionIdRef w = sessionId (chatState w) \<and> is_session_id (sessionId (chatState w)))"

section \<open>The guide hook\<close>

text \<open>
  \<^verbatim>\<open>useGuideSession\<close> persists its session state and its chat messages with a latch
  of its own. Its debounced functions do not test the latch; its auto-save effects do.
\<close>

definition GUIDE_CHAT_KEY :: string where
  "GUIDE_CHAT_KEY = ''guide_chat_messages''"

definition GUIDE_SESSION_EXCLUDE :: "string list" where
  "GUIDE_SESSION_EXCLUDE = []"

record guide_hook =
  guide_isHydrated :: bool
  guide_env :: browser
  sessionState :: jsobj
  chatMessages :: jsval
  pendingSessionState :: "jsobj option"
  pendingChatMessages :: "jsval option"

definition guide_initial :: "browser \<Rightarrow> jsobj \<Rightarrow> guide_hook" where
  "guide_initial b initial_session_state =
     \<lparr>guide_isHydrated = False, guide_env = b, sessionState = initial_session_state,
      chatMessages = JArr [], pendingSessionState = None, pendingChatMessages = None\<rparr>"

definition guide_save :: "string \<Rightarrow> jsval \<Rightarrow> guide_hook \<Rightarrow> guide_hook" where
  "guide_save key v g =
     (case saveToStorage (guide_env g) key v of
        Inl e \<Rightarrow> g
      | Inr b' \<Rightarrow> g\<lparr>guide_env := b'\<rparr>)"

text \<open>\<^verbatim>\<open>v.length > 0\<close>: a TypeError on undefined and null; arrays and strings have a length.\<close>

definition has_positive_length :: "jsval \<Rightarrow> jsexn + bool" where
  "has_positive_length v =
     (if nullish v then Inl TypeError
      else Inr (case v of JArr xs \<Rightarrow> xs \<noteq> [] | JStr s \<Rightarrow> s \<noteq> [] | _ \<Rightarrow> False))"

definition guide_restore_effect :: "guide_hook \<Rightarrow> jsexn option \<times> guide_hook" where
  "guide_restore_effect g =
     (if window_localStorage (guide_env g) = None then (None, g)
      else (let persistedSession =
                  (case loadFromStorage (guide_env g) (STORAGE_KEYS GUIDE_SESSION) (JObj []) of
                     Inl e \<Rightarrow> JObj [] | Inr v \<Rightarrow> v);
                persistedChat =
                  (case loadFromStorage (guide_env g) GUIDE_CHAT_KEY (JArr []) of
                     Inl e \<Rightarrow> JArr [] | Inr v \<Rightarrow> v)
            in case Object_keys persistedSession of
                 Inl e \<Rightarrow> (Some e, g)
               | Inr ks \<Rightarrow>
                   (let g1 = (if length ks > 0
                              then g\<lparr>sessionState := mergeWithDefaults persistedSession
                                       (sessionState g) GUIDE_SESSION_EXCLUDE\<rparr>
                              else g)
                    in case has_positive_length persistedChat of
                         Inl e \<Rightarrow> (Some e, g1)
                       | Inr positive \<Rightarrow>
                           (None, (if positive then g1\<lparr>chatMessages := persistedChat\<rparr> else g1)
                                    \<lparr>guide_isHydrated := True\<rparr>))))"

datatype guide_event =
    SessionStateChanged jsobj
  | ChatMessagesChanged jsval
  | SessionTimerElapsed
  | ChatTimerElapsed
  | GuideRestorePass

fun guide_step :: "guide_event \<Rightarrow> guide_hook \<Rightarrow> guide_hook" where
  "guide_step (SessionStateChanged s) g =
     (let g' = g\<lparr>sessionState := s\<rparr>
      in if guide_isHydrated g' then g'\<lparr>pendingSessionState := Some s\<rparr> else g')"
| "guide_step (ChatMessagesChanged ms) g =
     (let g' = g\<lparr>chatMessages := ms\<rparr>
      in if guide_isHydrated g' then g'\<lparr>pendingChatMessages := Some ms\<rparr> else g')"
| "guide_step SessionTimerElapsed g =
     (case pendingSessionState g of
        None \<Rightarrow> g
      | Some s \<Rightarrow>
          guide_save (STORAGE_KEYS GUIDE_SESSION) (JObj (persistState s GUIDE_SESSION_EXCLUDE))
            (g\<lparr>pendingSessionState := None\<rparr>))"
| "guide_step ChatTimerElapsed g =
     (case pendingChatMessages g of
        None \<Rightarrow> g
      | Some ms \<Rightarrow> guide_save GUIDE_CHAT_KEY ms (g\<lparr>pendingChatMessages := None\<rparr>))"
| "guide_step GuideRestorePass g = snd (guide_restore_effect g)"

definition guide_quiet :: "guide_hook \<Rightarrow> bool" where
  "guide_quiet g =
     (\<not> guide_isHydrated g \<and> pendingSessionState g = None \<and> pendingChatMessages g = None)"

section \<open>Concrete runs of the channels\<close>

text \<open>The frames of scenario A of the specification, and the run that receives them.\<close>

definition chat_frames :: "jsval list" where
  "chat_frames =
     [JObj [(''type'', JStr ''session''), (''session_id'', JStr ''s1'')],
      JObj [(''type'', JStr ''stream''), (''content'', JStr ''Hi'')],
      JObj [(''type'', JStr ''stream''), (''content'', JStr '' there'')],
      JObj [(''type'', JStr ''result''), (''content'', JStr ''Hi there'')]]"

text \<open>Messages delivered one after the other to the socket \<^verbatim>\<open>ws\<close>.\<close>

definition chat_receive :: "nat \<Rightarrow> jsval list \<Rightarrow> chat_world \<Rightarrow> chat_world" where
  "chat_receive ws frames w = fold (\<lambda>f. chat_deliver (WsMessage ws (Some f))) frames w"

definition scenario_A :: chat_world where
  "scenario_A =
     chat_receive 0 chat_frames (chat_deliver (WsOpened 0) (sendChatMessage ''hello'' chat_initial))"

definition two_deltas :: "jsval list" where
  "two_deltas =
     [JObj [(''type'', JStr ''stream''), (''content'', JStr ''Hi'')],
      JObj [(''type'', JStr ''stream''), (''content'', JStr '' there'')]]"

definition chat_opened :: chat_world where
  "chat_opened = chat_deliver (WsOpened 0) (sendChatMessage ''hello'' chat_initial)"

text \<open>Scenario A, followed by a second message.\<close>

definition chat_second_send :: "chat_action list" where
  "chat_second_send =
     [SendChatMessage ''hello'', ChatSocket (WsOpened 0)] @
     map (\<lambda>f. ChatSocket (WsMessage 0 (Some f))) chat_frames @
     [SendChatMessage ''again'']"

text \<open>
  A chat whose session event names no session, and the second message sent after it, up
  to the opening of its socket.
\<close>

definition chat_unnamed_session :: "chat_action list" where
  "chat_unnamed_session =
     [SendChatMessage ''hello'', ChatSocket (WsOpened 0),
      ChatSocket (WsMessage 0 (Some (JObj [(''type'', JStr ''session'')]))),
      ChatSocket (WsMessage 0 (Some (JObj [(''type'', JStr ''result''), (''content'', JStr ''Hi'')]))),
      SendChatMessage ''again'', ChatSocket (WsOpened 1)]"

text \<open>A session state of the guide that has a property named isLoading, and its run.\<close>

definition guide_loading_state :: jsobj where
  "guide_loading_state = [(''session_id'', JStr ''g1''), (''isLoading'', JBool True)]"

definition guide_loading_run :: guide_hook where
  "guide_loading_run =
     fold guide_step
       [GuideRestorePass, SessionStateChanged guide_loading_state, SessionTimerElapsed]
       (guide_initial (example_browser (Some Map.empty) True) [])"

text \<open>Two calls of \<^verbatim>\<open>startSolver\<close> with no event in between.\<close>

definition twice_started :: solver_world where
  "twice_started = startSolver ''q2'' ''kb'' (startSolver ''q1'' ''kb'' solver_initial)"

text \<open>
  A socket is live while it is connecting or open. The invariant of the solver: a live
  socket is the one \<^verbatim>\<open>solverWs\<close> holds.
\<close>

definition at_most_current_live :: "solver_world \<Rightarrow> bool" where
  "at_most_current_live w =
     (\<forall>i < length (solverSockets w). live (solverSockets w ! i) \<longrightarrow> solverWs w = Some i)"

definition research_request_0 :: research_request where
  "research_request_0 =
     \<lparr>req_topic = ''graphs'', req_kb = ''kb'', planMode = ''medium'', enabledTools = [''RAG''],
      skipRephrase = False\<rparr>"

definition research_opened :: research_world where
  "research_opened = research_deliver (WsOpened 0) (startResearch research_request_0 research_initial)"

definition error_frame :: jsval where
  "error_frame = JObj [(''type'', JStr ''error''), (''message'', JStr ''boom'')]"

definition solver_opened :: solver_world where
  "solver_opened = solver_deliver (WsOpened 0) (startSolver ''q1'' ''kb'' solver_initial)"

definition unprintable_error_frame :: jsval where
  "unprintable_error_frame =
     JObj [(''type'', JStr ''error''), (''message'', JObj [(''toString'', JNum 1)])]"

text \<open>
  A solver run whose result frame names a session, and the next call of
  \<^verbatim>\<open>startSolver\<close>.
\<close>

definition solver_after_result :: solver_world where
  "solver_after_result =
     startSolver ''q2'' ''kb''
       (solver_deliver
          (WsMessage 0 (Some (JObj [(''type'', JStr ''result''), (''session_id'', JStr ''s2''),
                                    (''final_answer'', JStr ''a1'')])))
          solver_opened)"

section \<open>Properties of the persistence library\<close>

lemma map_of_persist_fold:
  "map_of (fold (\<lambda>key result.
             if key \<notin> set exclude then AList.update key (obj_get state key) result
             else result) ks acc) k =
   (if k \<in> set ks \<and> k \<notin> set exclude then Some (obj_get state k) else map_of acc k)"
  by (induction ks arbitrary: acc) (auto simp: update_conv)

lemma obj_get_absent: "k \<notin> fst ` set obj \<Longrightarrow> obj_get obj k = JUndefined"
  by (simp add: obj_get_def map_of_eq_None_iff [THEN iffD2])

lemma obj_get_persistState:
  "obj_get (persistState state exclude) k =
     (if k \<in> set exclude then JUndefined else obj_get state k)"
proof (cases "k \<in> fst ` set state")
  case True
  then show ?thesis
    by (simp add: persistState_def obj_get_def [of "fold _ _ _"] map_of_persist_fold)
next
  case False
  then show ?thesis
    by (simp add: persistState_def obj_get_def [of "fold _ _ _"] map_of_persist_fold
        obj_get_absent)
qed

lemma keys_persist_fold:
  "fst ` set (fold (\<lambda>key result.
             if key \<notin> set exclude then AList.update key (obj_get state key) result
             else result) ks acc) = (set ks - set exclude) \<union> fst ` set acc"
  by (induction ks arbitrary: acc) (auto simp: dom_update)

lemma keys_persistState:
  "fst ` set (persistState state exclude) = fst ` set state - set exclude"
  by (simp add: persistState_def keys_persist_fold)

lemma map_of_merge_fold:
  "map_of (fold (\<lambda>key result.
                   if key \<in> set exclude then result
                   else if js_get p key \<noteq> JUndefined
                        then AList.update key (js_get p key) result
                        else result) ks acc) k =
   (if k \<in> set ks \<and> k \<notin> set exclude \<and> js_get p k \<noteq> JUndefined
    then Some (js_get p k) else map_of acc k)"
  by (induction ks arbitrary: acc) (auto simp: update_conv)

lemma obj_get_mergeWithDefaults:
  "truthy p \<Longrightarrow>
   obj_get (mergeWithDefaults p d exclude) k =
     (if k \<notin> set exclude \<and> js_get p k \<noteq> JUndefined then js_get p k else obj_get d k)"
proof -
  assume t: "truthy p"
  have absent: "k \<notin> fst ` set (js_entries p) \<Longrightarrow> js_get p k = JUndefined"
    by (simp add: js_get_def obj_get_absent)
  show ?thesis
  proof (cases "k \<in> fst ` set (js_entries p)")
    case True
    with t show ?thesis
      by (simp add: mergeWithDefaults_def obj_get_def [of "fold _ _ _"] obj_get_def [of d]
          map_of_merge_fold)
  next
    case False
    with t absent show ?thesis
      by (simp add: mergeWithDefaults_def obj_get_def [of "fold _ _ _"] obj_get_def [of d]
          map_of_merge_fold)
  qed
qed

text \<open>
  C4. Saving a state and merging the saved object back over the defaults gives, for
  every state, defaults and exclusion list, the default's value on each excluded field
  and the state's value on each other field that is not undefined in the state.
\<close>

theorem merge_of_persist:
  "(k \<in> set excl \<longrightarrow>
      obj_get (mergeWithDefaults (JObj (persistState S excl)) D excl) k = obj_get D k) \<and>
   (k \<notin> set excl \<and> obj_get S k \<noteq> JUndefined \<longrightarrow>
      obj_get (mergeWithDefaults (JObj (persistState S excl)) D excl) k = obj_get S k)"
  by (simp add: obj_get_mergeWithDefaults js_get_def obj_get_persistState)

theorem merge_of_persist_witness:
  "obj_get (mergeWithDefaults
      (JObj (persistState [(''topic'', JStr ''graphs''), (''status'', JStr ''running'')]
         [''status'']))
      [(''status'', JStr ''idle''), (''topic'', JStr '''')] [''status'']) ''status''
     = JStr ''idle'' \<and>
   obj_get (mergeWithDefaults
      (JObj (persistState [(''topic'', JStr ''graphs''), (''status'', JStr ''running'')]
         [''status'']))
      [(''status'', JStr ''idle''), (''topic'', JStr '''')] [''status'']) ''topic''
     = JStr ''graphs''"
  using
    merge_of_persist [of "''status''" "[''status'']"
      "[(''topic'', JStr ''graphs''), (''status'', JStr ''running'')]"
      "[(''status'', JStr ''idle''), (''topic'', JStr '''')]"]
    merge_of_persist [of "''topic''" "[''status'']"
      "[(''topic'', JStr ''graphs''), (''status'', JStr ''running'')]"
      "[(''status'', JStr ''idle''), (''topic'', JStr '''')]"]
  by (simp add: obj_get_def)

lemmas ex_defs = example_browser_def example_json_def STORAGE_PREFIX_def STORAGE_VERSION_def
  js_member_def js_get_def obj_get_def getItem_def storage_wrapper_def

lemma obj_get_update: "obj_get (AList.update k v m) k' = (if k' = k then v else obj_get m k')"
  by (simp add: obj_get_def update_conv)

text \<open>
  C5, as stated, fails for the guide hook. Its save function filters the session state
  with \<^verbatim>\<open>GUIDE_SESSION_EXCLUDE\<close>, which is empty, and not with
  \<^verbatim>\<open>EXCLUDE_FIELDS.GUIDE\<close>: a session state that has the property isLoading is
  written with it.
\<close>

theorem guide_save_keeps_excluded_key:
  \<open>''isLoading'' \<in> set (EXCLUDE_FIELDS GUIDE) \<and>
   ''isLoading'' \<in> fst ` set (persistState guide_loading_state GUIDE_SESSION_EXCLUDE) \<and>
   getItem (guide_env guide_loading_run) ''deeptutor_guide_session'' =
     Some ''{"version":1,"data":{"session_id":"g1","isLoading":true},"timestamp":0}''\<close>
  by (simp add: guide_loading_run_def guide_loading_state_def guide_initial_def
      guide_restore_effect_def guide_save_def GUIDE_SESSION_EXCLUDE_def GUIDE_CHAT_KEY_def
      has_positive_length_def Object_keys_def loadFromStorage_def loadFromStorage_try_def
      saveToStorage_def saveToStorage_try_def persistState_def Let_def ex_defs)

text \<open>
  C5, amended to the five channels of the provider. The save function of a channel hands
  \<^verbatim>\<open>persistState(S, EXCLUDE_FIELDS[channel])\<close> to \<^verbatim>\<open>saveToStorage\<close>. That object
  has no key of the channel's exclusion list, whatever keys the state has; and the only
  entry a run of the save function can change in the store is the channel's own, which
  then holds the serialised wrapper of exactly that object.
\<close>

theorem save_path_excludes:
  "fst ` set (persistState S (channel_exclude ch)) \<inter> set (channel_exclude ch) = {} \<and>
   (\<forall>k. getItem (env (save_callback ch p S)) k \<noteq> getItem (env p) k \<longrightarrow>
      k = STORAGE_PREFIX @ channel_key ch \<and>
      getItem (env (save_callback ch p S)) k =
        JSON_stringify (env p)
          (storage_wrapper (env p) (JObj (persistState S (channel_exclude ch)))))"
  by (auto simp: keys_persistState save_callback_def saveToStorage_def saveToStorage_try_def
      getItem_def Let_def split: option.splits if_splits sum.splits)

theorem save_path_excludes_witness:
  \<open>fst ` set (persistState [(''isLoading'', JBool True), (''selectedKb'', JStr ''kb'')]
        (channel_exclude Chat)) \<inter> set (channel_exclude Chat) = {} \<and>
   getItem (env (save_callback Chat
        ((initial_provider (example_browser (Some Map.empty) True) (\<lambda>ch. []))\<lparr>isHydrated := True\<rparr>)
        [(''isLoading'', JBool True), (''selectedKb'', JStr ''kb'')]))
      ''deeptutor_chat_state''
     \<noteq> getItem (env ((initial_provider (example_browser (Some Map.empty) True) (\<lambda>ch. []))
           \<lparr>isHydrated := True\<rparr>)) ''deeptutor_chat_state'' \<and>
   getItem (env (save_callback Chat
        ((initial_provider (example_browser (Some Map.empty) True) (\<lambda>ch. []))\<lparr>isHydrated := True\<rparr>)
        [(''isLoading'', JBool True), (''selectedKb'', JStr ''kb'')]))
      ''deeptutor_chat_state''
     = Some ''{"version":1,"data":{"selectedKb":"kb"},"timestamp":0}''\<close>
proof -
  let ?p = "(initial_provider (example_browser (Some Map.empty) True) (\<lambda>ch. []))\<lparr>isHydrated := True\<rparr>"
  let ?S = "[(''isLoading'', JBool True), (''selectedKb'', JStr ''kb'')]"
  have changed: "getItem (env (save_callback Chat ?p ?S)) ''deeptutor_chat_state''
      \<noteq> getItem (env ?p) ''deeptutor_chat_state''"
    by (simp add: save_callback_def saveToStorage_def saveToStorage_try_def
        initial_provider_def persistState_def Let_def ex_defs)
  have payload: \<open>JSON_stringify (env ?p)
          (storage_wrapper (env ?p) (JObj (persistState ?S (channel_exclude Chat))))
      = Some ''{"version":1,"data":{"selectedKb":"kb"},"timestamp":0}''\<close>
    by (simp add: initial_provider_def persistState_def ex_defs)
  from save_path_excludes [of ?S Chat ?p] changed payload show ?thesis
    by metis
qed

section \<open>Loading and saving never throw\<close>

text \<open>
  C9. \<^verbatim>\<open>loadFromStorage\<close> always returns normally. It returns the caller's default
  when there is no entry (or no store), when the entry is the empty text, when the entry
  does not parse, and when the parsed wrapper's version is not \<^const>\<open>STORAGE_VERSION\<close>
  (a wrapper that is null has none); otherwise it returns the wrapper's data.
  \<^verbatim>\<open>saveToStorage\<close> always returns normally too: a serialisation or quota error
  is caught.
\<close>

theorem storage_degrades_to_default:
  "(\<exists>r. loadFromStorage b key d = Inr r) \<and>
   (getItem b (STORAGE_PREFIX @ key) = None \<longrightarrow> loadFromStorage b key d = Inr d) \<and>
   (getItem b (STORAGE_PREFIX @ key) = Some [] \<longrightarrow> loadFromStorage b key d = Inr d) \<and>
   (\<forall>raw. getItem b (STORAGE_PREFIX @ key) = Some raw \<and> JSON_parse b raw = None
      \<longrightarrow> loadFromStorage b key d = Inr d) \<and>
   (\<forall>raw w. getItem b (STORAGE_PREFIX @ key) = Some raw \<and> JSON_parse b raw = Some w \<and>
      js_member w ''version'' \<noteq> Inr (JNum STORAGE_VERSION)
      \<longrightarrow> loadFromStorage b key d = Inr d) \<and>
   (\<forall>raw w. getItem b (STORAGE_PREFIX @ key) = Some raw \<and> raw \<noteq> [] \<and>
      JSON_parse b raw = Some w \<and> js_member w ''version'' = Inr (JNum STORAGE_VERSION)
      \<longrightarrow> loadFromStorage b key d = Inr (js_get w ''data'')) \<and>
   (\<exists>b'. saveToStorage b key v = Inr b')"
  by (auto simp: loadFromStorage_def loadFromStorage_try_def saveToStorage_def getItem_def
      js_member_def split: option.splits sum.splits if_splits)

theorem storage_degrades_to_default_witness:
  \<open>loadFromStorage (example_browser None True) ''chat_state'' JNull = Inr JNull \<and>
   loadFromStorage (example_browser (Some [''deeptutor_chat_state'' \<mapsto> ''{"version":'']) True)
      ''chat_state'' JNull = Inr JNull \<and>
   loadFromStorage
      (example_browser
         (Some [''deeptutor_chat_state'' \<mapsto> ''{"version":0,"data":7,"timestamp":0}'']) True)
      ''chat_state'' JNull = Inr JNull \<and>
   loadFromStorage
      (example_browser
         (Some [''deeptutor_chat_state'' \<mapsto> ''{"version":1,"data":7,"timestamp":0}'']) True)
      ''chat_state'' JNull = Inr (JNum 7) \<and>
   (\<exists>b'. saveToStorage (example_browser (Some Map.empty) False) ''chat_state'' (JNum 7) = Inr b')\<close>
proof -
  let ?k = "STORAGE_PREFIX @ ''chat_state''"
  let ?b1 = "example_browser None True"
  let ?b2 = \<open>example_browser (Some [''deeptutor_chat_state'' \<mapsto> ''{"version":'']) True\<close>
  let ?b3 = \<open>example_browser
         (Some [''deeptutor_chat_state'' \<mapsto> ''{"version":0,"data":7,"timestamp":0}'']) True\<close>
  let ?b4 = \<open>example_browser
         (Some [''deeptutor_chat_state'' \<mapsto> ''{"version":1,"data":7,"timestamp":0}'']) True\<close>
  let ?w3 = "JObj [(''version'', JNum 0), (''data'', JNum 7), (''timestamp'', JNum 0)]"
  let ?w4 = "JObj [(''version'', JNum 1), (''data'', JNum 7), (''timestamp'', JNum 0)]"
  have a1: "getItem ?b1 ?k = None"
    by (simp add: ex_defs)
  have a2: \<open>getItem ?b2 ?k = Some ''{"version":'' \<and> JSON_parse ?b2 ''{"version":'' = None\<close>
    by (simp add: ex_defs)
  have a3: \<open>getItem ?b3 ?k = Some ''{"version":0,"data":7,"timestamp":0}'' \<and>
      JSON_parse ?b3 ''{"version":0,"data":7,"timestamp":0}'' = Some ?w3 \<and>
      js_member ?w3 ''version'' \<noteq> Inr (JNum STORAGE_VERSION)\<close>
    by (simp add: ex_defs)
  have a4: \<open>getItem ?b4 ?k = Some ''{"version":1,"data":7,"timestamp":0}'' \<and>
      ''{"version":1,"data":7,"timestamp":0}'' \<noteq> [] \<and>
      JSON_parse ?b4 ''{"version":1,"data":7,"timestamp":0}'' = Some ?w4 \<and>
      js_member ?w4 ''version'' = Inr (JNum STORAGE_VERSION)\<close>
    by (simp add: ex_defs)
  have d4: "js_get ?w4 ''data'' = JNum 7"
    by (simp add: ex_defs)
  have c1: "loadFromStorage ?b1 ''chat_state'' JNull = Inr JNull"
    using storage_degrades_to_default [of ?b1 "''chat_state''" JNull JNull] a1 by blast
  have c2: "loadFromStorage ?b2 ''chat_state'' JNull = Inr JNull"
    using storage_degrades_to_default [of ?b2 "''chat_state''" JNull JNull] a2 by blast
  have c3: "loadFromStorage ?b3 ''chat_state'' JNull = Inr JNull"
    using storage_degrades_to_default [of ?b3 "''chat_state''" JNull JNull] a3 by blast
  have c4: "loadFromStorage ?b4 ''chat_state'' JNull = Inr (JNum 7)"
    using storage_degrades_to_default [of ?b4 "''chat_state''" JNull JNull] a4 d4 by metis
  have c5: "\<exists>b'. saveToStorage (example_browser (Some Map.empty) False) ''chat_state'' (JNum 7) = Inr b'"
    using storage_degrades_to_default
      [of "example_browser (Some Map.empty) False" "''chat_state''" JNull "JNum 7"] by blast
  from c1 c2 c3 c4 c5 show ?thesis by blast
qed

section \<open>Saving, then loading\<close>

lemma json_norm_undefined_free:
  "json_norm v = JUndefined \<longleftrightarrow> v = JUndefined"
  by (cases v) simp_all

lemma json_norm_wrapper:
  "js_member (json_norm (storage_wrapper b v)) ''version'' = Inr (JNum STORAGE_VERSION) \<and>
   js_member (json_norm (storage_wrapper b v)) ''data'' = Inr (json_norm v)"
  by (cases "v = JUndefined") (simp_all add: storage_wrapper_def js_member_def js_get_def obj_get_def)

text \<open>
  C10, as stated, fails where the store rejects the write: \<^verbatim>\<open>saveToStorage\<close>
  swallows the QuotaExceededError, nothing is stored, and \<^verbatim>\<open>loadFromStorage\<close>
  returns the default.
\<close>

theorem save_then_load_counterexample:
  "\<not> (\<exists>b'. saveToStorage (example_browser (Some Map.empty) False) ''chat_state'' (JNum 7) = Inr b' \<and>
         loadFromStorage b' ''chat_state'' JNull = Inr (json_norm (JNum 7)))"
  by (simp add: saveToStorage_def saveToStorage_try_def loadFromStorage_def
      loadFromStorage_try_def ex_defs)

text \<open>
  C10, amended. Where there is a store and it accepts the entry, saving a value under a
  key and loading that key returns the JSON round trip of the value, for every default:
  the version written is the version checked. (The hypotheses on \<^verbatim>\<open>JSON.stringify\<close>
  and \<^verbatim>\<open>JSON.parse\<close> say that the wrapper is serialised, to a text that is not
  empty, and that parsing that text gives the wrapper's round trip.) Where there is no
  store, or the store rejects the entry, \<^verbatim>\<open>saveToStorage\<close> returns normally and
  leaves the browser as it was.
\<close>

theorem save_then_load:
  "(window_localStorage b = Some store \<and>
    JSON_stringify b (storage_wrapper b v) = Some s \<and>
    s \<noteq> [] \<and>
    setItem_accepts b (STORAGE_PREFIX @ key) s \<and>
    JSON_parse b s = Some (json_norm (storage_wrapper b v)) \<longrightarrow>
      (\<exists>b'. saveToStorage b key v = Inr b' \<and>
            loadFromStorage b' key d = Inr (json_norm v))) \<and>
   (window_localStorage b = None \<longrightarrow> saveToStorage b key v = Inr b) \<and>
   (JSON_stringify b (storage_wrapper b v) = Some s \<and>
    \<not> setItem_accepts b (STORAGE_PREFIX @ key) s \<longrightarrow>
      saveToStorage b key v = Inr b)"
  using json_norm_wrapper [of b v]
  by (simp add: saveToStorage_def saveToStorage_try_def loadFromStorage_def
      loadFromStorage_try_def split: option.split)

theorem save_then_load_witness:
  \<open>window_localStorage (example_browser (Some Map.empty) True) = Some Map.empty \<and>
   JSON_stringify (example_browser (Some Map.empty) True)
      (storage_wrapper (example_browser (Some Map.empty) True) (JNum 7))
     = Some ''{"version":1,"data":7,"timestamp":0}'' \<and>
   setItem_accepts (example_browser (Some Map.empty) True)
      (STORAGE_PREFIX @ ''chat_state'') ''{"version":1,"data":7,"timestamp":0}'' \<and>
   JSON_parse (example_browser (Some Map.empty) True) ''{"version":1,"data":7,"timestamp":0}''
     = Some (json_norm (storage_wrapper (example_browser (Some Map.empty) True) (JNum 7))) \<and>
   (\<exists>b'. saveToStorage (example_browser (Some Map.empty) True) ''chat_state'' (JNum 7) = Inr b' \<and>
         loadFromStorage b' ''chat_state'' JNull = Inr (JNum 7)) \<and>
   window_localStorage (example_browser None True) = None \<and>
   saveToStorage (example_browser None True) ''chat_state'' (JNum 7) =
     Inr (example_browser None True) \<and>
   JSON_stringify (example_browser (Some Map.empty) False)
      (storage_wrapper (example_browser (Some Map.empty) False) (JNum 7))
     = Some ''{"version":1,"data":7,"timestamp":0}'' \<and>
   \<not> setItem_accepts (example_browser (Some Map.empty) False)
      (STORAGE_PREFIX @ ''chat_state'') ''{"version":1,"data":7,"timestamp":0}'' \<and>
   saveToStorage (example_browser (Some Map.empty) False) ''chat_state'' (JNum 7) =
     Inr (example_browser (Some Map.empty) False)\<close>
proof -
  let ?b = "example_browser (Some Map.empty) True"
  let ?n = "example_browser None True"
  let ?r = "example_browser (Some Map.empty) False"
  let ?s = \<open>''{"version":1,"data":7,"timestamp":0}''\<close>
  have h1: "window_localStorage ?b = Some Map.empty"
    by (simp add: ex_defs)
  have h2: "JSON_stringify ?b (storage_wrapper ?b (JNum 7)) = Some ?s"
    by (simp add: ex_defs)
  have h3: "?s \<noteq> []"
    by simp
  have h4: "setItem_accepts ?b (STORAGE_PREFIX @ ''chat_state'') ?s"
    by (simp add: ex_defs)
  have h5: "JSON_parse ?b ?s = Some (json_norm (storage_wrapper ?b (JNum 7)))"
    by (simp add: ex_defs)
  have n1: "window_localStorage ?n = None"
    by (simp add: ex_defs)
  have r1: "JSON_stringify ?r (storage_wrapper ?r (JNum 7)) = Some ?s"
    by (simp add: ex_defs)
  have r2: "\<not> setItem_accepts ?r (STORAGE_PREFIX @ ''chat_state'') ?s"
    by (simp add: ex_defs)
  have a: "\<exists>b'. saveToStorage ?b ''chat_state'' (JNum 7) = Inr b' \<and>
         loadFromStorage b' ''chat_state'' JNull = Inr (JNum 7)"
    using save_then_load [of ?b Map.empty "JNum 7" ?s "''chat_state''" JNull] h1 h2 h3 h4 h5
    by simp
  have b: "saveToStorage ?n ''chat_state'' (JNum 7) = Inr ?n"
    using save_then_load [of ?n Map.empty "JNum 7" ?s "''chat_state''" JNull] n1
    by simp
  have c: "saveToStorage ?r ''chat_state'' (JNum 7) = Inr ?r"
    using save_then_load [of ?r Map.empty "JNum 7" ?s "''chat_state''" JNull] r1 r2
    by simp
  from h1 h2 h4 h5 a n1 b r1 r2 c show ?thesis
    by blast
qed

section \<open>The hydration gate\<close>

lemma save_callback_env:
  "\<not> isHydrated p \<Longrightarrow> save_callback ch p s = p"
  by (simp add: save_callback_def)

lemma set_state_unhydrated:
  "\<not> isHydrated p \<Longrightarrow> env (set_state ch s p) = env p \<and> \<not> isHydrated (set_state ch s p)"
  by (simp add: set_state_def autosave_effect_def)

lemma debounce_elapsed_unhydrated:
  "\<not> isHydrated p \<Longrightarrow>
   env (debounce_elapsed ch p) = env p \<and> \<not> isHydrated (debounce_elapsed ch p)"
  by (simp add: debounce_elapsed_def save_callback_def split: option.splits)

lemma restore_channel_env: "env (snd (restore_channel ch v p)) = env p"
  by (simp add: restore_channel_def Let_def split: sum.splits)

lemma restore_all_env: "env (snd (restore_all cs p)) = env p"
proof (induction cs arbitrary: p)
  case Nil
  then show ?case by simp
next
  case (Cons c cs)
  obtain ch v where c: "c = (ch, v)" by (cases c)
  obtain r p' where r: "restore_channel ch v p = (r, p')" by (cases "restore_channel ch v p")
  then have "env p' = env p" using restore_channel_env [of ch v p] by simp
  then show ?case using Cons.IH [of p'] c r by (cases r) simp_all
qed

lemma restore_effect_env: "env (snd (restore_effect p)) = env p"
proof -
  obtain r p' where r: "restore_all
                   (map (\<lambda>ch. (ch, load_persisted (env p) ch))
                      [Solver, Question, Research, IdeaGen, Chat]) p = (r, p')"
    by (cases "restore_all
                   (map (\<lambda>ch. (ch, load_persisted (env p) ch))
                      [Solver, Question, Research, IdeaGen, Chat]) p")
  then have "env p' = env p"
    using restore_all_env [of "map (\<lambda>ch. (ch, load_persisted (env p) ch))
                      [Solver, Question, Research, IdeaGen, Chat]" p] by simp
  then show ?thesis using r
    by (cases r) (simp_all add: restore_effect_def)
qed

lemma provider_run_unhydrated:
  "\<not> isHydrated p \<Longrightarrow> RestorePass \<notin> set evs \<Longrightarrow>
   env (provider_run evs p) = env p \<and> \<not> isHydrated (provider_run evs p)"
proof (induction evs arbitrary: p)
  case Nil
  then show ?case by (simp add: provider_run_def)
next
  case (Cons ev evs)
  have step: "env (provider_step ev p) = env p \<and> \<not> isHydrated (provider_step ev p)"
    using Cons.prems set_state_unhydrated debounce_elapsed_unhydrated
    by (cases ev) simp_all
  then show ?case
    using Cons.IH [of "provider_step ev p"] Cons.prems
    by (simp add: provider_run_def)
qed

text \<open>
  C3. As long as the restore effect has not run, no state change and no elapsing debounce
  timer of any channel writes to the store: the browser is what it was. The restore
  effect itself, which sets the latch as its last step, writes nothing either.
\<close>

theorem no_write_before_hydration:
  "\<not> isHydrated p \<Longrightarrow> RestorePass \<notin> set evs \<Longrightarrow>
   env (provider_run evs p) = env p \<and>
   env (snd (restore_effect (provider_run evs p))) = env p"
  using provider_run_unhydrated [of p evs] restore_effect_env [of "provider_run evs p"]
  by simp

theorem no_write_before_hydration_witness:
  "\<not> isHydrated (initial_provider (example_browser (Some Map.empty) True) (\<lambda>ch. [])) \<and>
   RestorePass \<notin> set [StateChanged Chat [(''selectedKb'', JStr ''kb'')], TimerElapsed Chat] \<and>
   env (provider_run [StateChanged Chat [(''selectedKb'', JStr ''kb'')], TimerElapsed Chat]
         (initial_provider (example_browser (Some Map.empty) True) (\<lambda>ch. [])))
     = example_browser (Some Map.empty) True \<and>
   env (snd (restore_effect
         (provider_run [StateChanged Chat [(''selectedKb'', JStr ''kb'')], TimerElapsed Chat]
            (initial_provider (example_browser (Some Map.empty) True) (\<lambda>ch. [])))))
     = example_browser (Some Map.empty) True"
proof -
  let ?p = "initial_provider (example_browser (Some Map.empty) True) (\<lambda>ch. [])"
  let ?evs = "[StateChanged Chat [(''selectedKb'', JStr ''kb'')], TimerElapsed Chat]"
  have h1: "\<not> isHydrated ?p"
    by (simp add: initial_provider_def)
  have h2: "RestorePass \<notin> set ?evs"
    by simp
  have e: "env ?p = example_browser (Some Map.empty) True"
    by (simp add: initial_provider_def)
  from no_write_before_hydration [OF h1 h2] h1 h2 e show ?thesis
    by simp
qed

lemma write_after_hydration:
  \<open>getItem (env (provider_run
       [RestorePass, StateChanged Chat [(''isLoading'', JBool True), (''selectedKb'', JStr ''kb'')],
        TimerElapsed Chat]
       (initial_provider (example_browser (Some Map.empty) True) (\<lambda>ch. []))))
     ''deeptutor_chat_state''
   = Some ''{"version":1,"data":{"selectedKb":"kb"},"timestamp":0}''\<close>
  by (simp add: provider_run_def initial_provider_def restore_effect_def restore_channel_def
      load_persisted_def loadFromStorage_def loadFromStorage_try_def Object_keys_def
      set_state_def autosave_effect_def debounce_call_def debounce_elapsed_def save_callback_def
      saveToStorage_def saveToStorage_try_def persistState_def Let_def ex_defs)

section \<open>The restore pass and the running tags\<close>

text \<open>
  A tag on a channel's exclusion list is the previous state's after the merge, whatever
  was stored; the research updater also rewrites a running status.
\<close>

lemma restore_merge_excluded:
  "k \<in> set (channel_exclude ch) \<Longrightarrow>
   obj_get (restore_merge ch persisted prev) k = obj_get prev k"
  by (cases "truthy persisted")
    (simp_all add: restore_merge_def obj_get_mergeWithDefaults, simp add: mergeWithDefaults_def)

lemma restore_research_not_running:
  "obj_get (restore_research persisted prev) ''status'' \<noteq> JStr ''running''"
  by (simp add: restore_research_def Let_def obj_get_update)

text \<open>
  C2 fails for the question channel. Its lifecycle tag \<^verbatim>\<open>step\<close> is not on
  \<^verbatim>\<open>EXCLUDE_FIELDS.QUESTION\<close>, so the save path writes it as it is, and the restore
  effect has no rewrite for it: a snapshot saved while \<^verbatim>\<open>step\<close> was "generating"
  comes back from the restore pass, run on the default state, with \<^verbatim>\<open>step\<close> still
  "generating".
\<close>

theorem question_restore_keeps_generating:
  "obj_get (persistState S (channel_exclude Question)) ''step'' = obj_get S ''step'' \<and>
   fst (restore_effect
          (initial_provider stale_question_browser (d(Question := DEFAULT_QUESTION_STATE))))
     = None \<and>
   isHydrated (snd (restore_effect
          (initial_provider stale_question_browser (d(Question := DEFAULT_QUESTION_STATE))))) \<and>
   obj_get (states (snd (restore_effect
          (initial_provider stale_question_browser (d(Question := DEFAULT_QUESTION_STATE)))))
        Question) ''step'' = JStr ''generating''"
proof -
  have "obj_get (persistState S (channel_exclude Question)) ''step'' = obj_get S ''step''"
    by (simp add: obj_get_persistState)
  moreover have "restore_effect
          (initial_provider stale_question_browser (d(Question := DEFAULT_QUESTION_STATE)))
     = (None, (initial_provider stale_question_browser (d(Question := DEFAULT_QUESTION_STATE)))
          \<lparr>states := (d(Question := DEFAULT_QUESTION_STATE))
              (Question := restore_updater Question
                 (JObj [(''step'', JStr ''generating''), (''topic'', JStr ''graphs'')])
                 DEFAULT_QUESTION_STATE),
           isHydrated := True\<rparr>)"
    by (simp add: restore_effect_def restore_channel_def initial_provider_def
        stale_question_browser_def load_persisted_def loadFromStorage_def
        loadFromStorage_try_def Object_keys_def Let_def ex_defs)
  moreover have "obj_get (restore_updater Question
                 (JObj [(''step'', JStr ''generating''), (''topic'', JStr ''graphs'')])
                 DEFAULT_QUESTION_STATE) ''step'' = JStr ''generating''"
    unfolding restore_updater_def restore_merge_def
    by (simp add: obj_get_mergeWithDefaults) (simp add: js_get_def obj_get_def)
  ultimately show ?thesis by simp
qed

section \<open>The guide hook writes nothing before its restore effect\<close>

lemma guide_step_quiet:
  "guide_quiet g \<Longrightarrow> ev \<noteq> GuideRestorePass \<Longrightarrow>
   guide_quiet (guide_step ev g) \<and> guide_env (guide_step ev g) = guide_env g"
  by (cases ev) (simp_all add: guide_quiet_def Let_def)

lemma guide_no_write_before_hydration:
  "GuideRestorePass \<notin> set evs \<Longrightarrow>
   guide_env (fold guide_step evs (guide_initial b s0)) = b"
proof -
  have "guide_quiet g \<Longrightarrow> GuideRestorePass \<notin> set evs \<Longrightarrow>
      guide_env (fold guide_step evs g) = guide_env g" for g
  proof (induction evs arbitrary: g)
    case Nil
    then show ?case by simp
  next
    case (Cons ev evs)
    then have "guide_quiet (guide_step ev g) \<and> guide_env (guide_step ev g) = guide_env g"
      using guide_step_quiet [of g ev] by auto
    then show ?case using Cons by simp
  qed
  moreover have "guide_quiet (guide_initial b s0)"
    by (simp add: guide_quiet_def guide_initial_def)
  moreover assume "GuideRestorePass \<notin> set evs"
  ultimately show ?thesis by (simp add: guide_initial_def)
qed

lemma guide_restore_writes_nothing:
  "guide_env (snd (guide_restore_effect g)) = guide_env g"
  by (simp add: guide_restore_effect_def Let_def split: sum.split)

section \<open>Scenario A and the order of stream events\<close>

lemmas js_defs = js_member_def js_get_def obj_get_def js_or_def js_nullish_or_def

lemmas ws_defs = ws_new_def ws_close_def ws_send_def ws_set_state_def

lemmas chat_defs = chat_initial_def DEFAULT_CHAT_STATE_def sendChatMessage_def chat_onopen_def
  chat_onmessage_def chat_stream_update_def chat_sources_update_def chat_result_update_def
  chat_onerror_def chat_onclose_def chat_receive_def

lemma scenario_A_value:
  "scenario_A =
     \<lparr>chatState =
        \<lparr>sessionId = JStr ''s1'',
         messages =
           [\<lparr>role = ''user'', content = JStr ''hello'', sources = JUndefined, isStreaming = None\<rparr>,
            \<lparr>role = ''assistant'', content = JStr ''Hi there'', sources = JUndefined,
              isStreaming = Some False\<rparr>],
         isLoading = False, selectedKb = [], enableRag = False, enableWebSearch = False,
         currentStage = JNull\<rparr>,
      chatWs = Some 0,
      sessionIdRef = JStr ''s1'',
      chatSockets =
        [\<lparr>readyState = CLOSING,
          sent = [JObj [(''message'', JStr ''hello''), (''session_id'', JNull),
                        (''history'', JArr []), (''kb_name'', JStr []),
                        (''enable_rag'', JBool False), (''enable_web_search'', JBool False)]],
          closure = \<lparr>message = ''hello'', rendered = DEFAULT_CHAT_STATE,
                      assistantMessage = ''Hi there''\<rparr>\<rparr>]\<rparr>"
  by (simp add: scenario_A_def chat_frames_def chat_defs ws_defs js_defs js_trim_def
      is_whitespace_def Let_def)

lemma js_get_type_not_nullish: "js_get f k = JStr s \<Longrightarrow> \<not> nullish f"
  by (cases f) (simp_all add: js_get_def obj_get_def)

lemma chat_stream_step:
  assumes "ws < length (chatSockets w)"
    and "readyState (chatSockets w ! ws) = OPEN"
    and "js_get f ''type'' = JStr ''stream''"
    and "js_to_string (js_get f ''content'') = Inr delta"
  shows "length (chatSockets (chat_deliver (WsMessage ws (Some f)) w)) = length (chatSockets w) \<and>
     readyState (chatSockets (chat_deliver (WsMessage ws (Some f)) w) ! ws) = OPEN \<and>
     assistantMessage (closure (chatSockets (chat_deliver (WsMessage ws (Some f)) w) ! ws)) =
       assistantMessage (closure (chatSockets w ! ws)) @ delta \<and>
     messages (chatState (chat_deliver (WsMessage ws (Some f)) w)) \<noteq> [] \<and>
     content (last (messages (chatState (chat_deliver (WsMessage ws (Some f)) w)))) =
       JStr (assistantMessage (closure (chatSockets w ! ws)) @ delta) \<and>
     role (last (messages (chatState (chat_deliver (WsMessage ws (Some f)) w)))) = ''assistant'' \<and>
     isStreaming (last (messages (chatState (chat_deliver (WsMessage ws (Some f)) w)))) = Some True"
  using assms js_get_type_not_nullish [OF assms(3)]
  by (simp add: chat_onmessage_def js_member_def chat_stream_update_def Let_def)

lemma chat_stream_skip:
  assumes "js_get f ''type'' = JStr ''stream''"
    and "js_to_string (js_get f ''content'') = Inl e"
  shows "chat_deliver (WsMessage ws (Some f)) w = w"
  using assms js_get_type_not_nullish [OF assms(1)]
  by (simp add: chat_onmessage_def js_member_def Let_def)

lemma stream_text_of_string: "js_get f ''content'' = JStr s \<Longrightarrow> stream_text f = s"
  by (simp add: stream_text_def)

text \<open>
  Stream frames extend \<^verbatim>\<open>assistantMessage\<close> by their texts, and a trailing streaming
  entry that holds \<^verbatim>\<open>assistantMessage\<close> keeps holding it.
\<close>

lemma chat_stream_tail:
  assumes "ws < length (chatSockets w)"
    and "readyState (chatSockets w ! ws) = OPEN"
    and "\<forall>f \<in> set fs. js_get f ''type'' = JStr ''stream''"
  shows "length (chatSockets (chat_receive ws fs w)) = length (chatSockets w) \<and>
     readyState (chatSockets (chat_receive ws fs w) ! ws) = OPEN \<and>
     assistantMessage (closure (chatSockets (chat_receive ws fs w) ! ws)) =
       assistantMessage (closure (chatSockets w ! ws)) @ concat (map stream_text fs) \<and>
     (messages (chatState w) \<noteq> [] \<and>
      role (last (messages (chatState w))) = ''assistant'' \<and>
      isStreaming (last (messages (chatState w))) = Some True \<and>
      content (last (messages (chatState w))) =
        JStr (assistantMessage (closure (chatSockets w ! ws))) \<longrightarrow>
      messages (chatState (chat_receive ws fs w)) \<noteq> [] \<and>
      role (last (messages (chatState (chat_receive ws fs w)))) = ''assistant'' \<and>
      isStreaming (last (messages (chatState (chat_receive ws fs w)))) = Some True \<and>
      content (last (messages (chatState (chat_receive ws fs w)))) =
        JStr (assistantMessage (closure (chatSockets w ! ws)) @ concat (map stream_text fs)))"
  using assms
proof (induction fs arbitrary: w)
  case Nil
  then show ?case by (simp add: chat_receive_def)
next
  case (Cons f fs)
  let ?w = "chat_deliver (WsMessage ws (Some f)) w"
  have f: "js_get f ''type'' = JStr ''stream''"
    using Cons.prems(3) by simp
  have rest: "\<forall>f \<in> set fs. js_get f ''type'' = JStr ''stream''"
    using Cons.prems(3) by simp
  have unfold: "chat_receive ws (f # fs) w = chat_receive ws fs ?w"
    by (simp add: chat_receive_def)
  show ?case
  proof (cases "js_to_string (js_get f ''content'')")
    case (Inl e)
    have same: "?w = w"
      using chat_stream_skip [OF f Inl] .
    have "stream_text f = []"
      using Inl by (simp add: stream_text_def)
    then show ?thesis
      using Cons.IH [OF Cons.prems(1) Cons.prems(2) rest] unfold same by simp
  next
    case (Inr delta)
    note step = chat_stream_step [OF Cons.prems(1) Cons.prems(2) f Inr]
    have t: "stream_text f = delta"
      using Inr by (simp add: stream_text_def)
    have len: "ws < length (chatSockets ?w)" and opn: "readyState (chatSockets ?w ! ws) = OPEN"
      using step Cons.prems(1) by simp_all
    note ih = Cons.IH [OF len opn rest]
    show ?thesis
      using ih step t unfold by simp
  qed
qed

lemma chat_stream_fold:
  assumes "ws < length (chatSockets w)"
    and "readyState (chatSockets w ! ws) = OPEN"
    and "\<forall>f \<in> set fs. js_get f ''type'' = JStr ''stream''"
    and "\<exists>f \<in> set fs. \<not> isl (js_to_string (js_get f ''content''))"
  shows "messages (chatState (chat_receive ws fs w)) \<noteq> [] \<and>
     content (last (messages (chatState (chat_receive ws fs w)))) =
       JStr (assistantMessage (closure (chatSockets w ! ws)) @ concat (map stream_text fs)) \<and>
     role (last (messages (chatState (chat_receive ws fs w)))) = ''assistant'' \<and>
     isStreaming (last (messages (chatState (chat_receive ws fs w)))) = Some True"
  using assms
proof (induction fs arbitrary: w)
  case Nil
  then show ?case by simp
next
  case (Cons f fs)
  let ?w = "chat_deliver (WsMessage ws (Some f)) w"
  have f: "js_get f ''type'' = JStr ''stream''"
    using Cons.prems(3) by simp
  have rest: "\<forall>f \<in> set fs. js_get f ''type'' = JStr ''stream''"
    using Cons.prems(3) by simp
  have unfold: "chat_receive ws (f # fs) w = chat_receive ws fs ?w"
    by (simp add: chat_receive_def)
  show ?case
  proof (cases "js_to_string (js_get f ''content'')")
    case (Inl e)
    have same: "?w = w"
      using chat_stream_skip [OF f Inl] .
    have "stream_text f = []"
      using Inl by (simp add: stream_text_def)
    moreover have "\<exists>f \<in> set fs. \<not> isl (js_to_string (js_get f ''content''))"
      using Cons.prems(4) Inl by simp
    ultimately show ?thesis
      using Cons.IH [OF Cons.prems(1) Cons.prems(2) rest] unfold same by simp
  next
    case (Inr delta)
    note step = chat_stream_step [OF Cons.prems(1) Cons.prems(2) f Inr]
    have t: "stream_text f = delta"
      using Inr by (simp add: stream_text_def)
    have len: "ws < length (chatSockets ?w)" and opn: "readyState (chatSockets ?w ! ws) = OPEN"
      using step Cons.prems(1) by simp_all
    note tail = chat_stream_tail [OF len opn rest]
    show ?thesis
      using tail step t unfold by simp
  qed
qed

text \<open>
  C6. In scenario A (\<^verbatim>\<open>sendChatMessage("hello")\<close> on the initial chat, the socket
  opens, then the session, two stream and the result frame arrive) the chat ends with
  \<^verbatim>\<open>sessionId\<close> "s1", a last message with content "Hi there" that is no longer
  streaming, \<^verbatim>\<open>isLoading\<close> false and \<^verbatim>\<open>currentStage\<close> null (the chat state has
  no other status). In general, stream frames delivered in order to an open socket that
  has received no stream frame yet leave a trailing assistant entry, still streaming,
  whose content is the concatenation of their deltas in that order. The delta of a frame
  is its content as a string. A frame whose content does not convert adds nothing, and
  there is an entry as soon as one frame converts.
\<close>

theorem chat_scenario_and_stream_order:
  "sessionId (chatState scenario_A) = JStr ''s1'' \<and>
   content (last (messages (chatState scenario_A))) = JStr ''Hi there'' \<and>
   isStreaming (last (messages (chatState scenario_A))) = Some False \<and>
   isLoading (chatState scenario_A) = False \<and>
   currentStage (chatState scenario_A) = JNull \<and>
   (ws < length (chatSockets w) \<and> readyState (chatSockets w ! ws) = OPEN \<and>
    assistantMessage (closure (chatSockets w ! ws)) = [] \<and>
    (\<forall>f \<in> set fs. js_get f ''type'' = JStr ''stream'') \<and>
    (\<exists>f \<in> set fs. \<not> isl (js_to_string (js_get f ''content''))) \<longrightarrow>
    messages (chatState (chat_receive ws fs w)) \<noteq> [] \<and>
    content (last (messages (chatState (chat_receive ws fs w)))) =
      JStr (concat (map stream_text fs)) \<and>
    role (last (messages (chatState (chat_receive ws fs w)))) = ''assistant'' \<and>
    isStreaming (last (messages (chatState (chat_receive ws fs w)))) = Some True) \<and>
   (js_get f ''content'' = JStr s \<longrightarrow> stream_text f = s)"
proof -
  have "ws < length (chatSockets w) \<and> readyState (chatSockets w ! ws) = OPEN \<and>
    assistantMessage (closure (chatSockets w ! ws)) = [] \<and>
    (\<forall>f \<in> set fs. js_get f ''type'' = JStr ''stream'') \<and>
    (\<exists>f \<in> set fs. \<not> isl (js_to_string (js_get f ''content''))) \<longrightarrow>
    messages (chatState (chat_receive ws fs w)) \<noteq> [] \<and>
    content (last (messages (chatState (chat_receive ws fs w)))) =
      JStr (concat (map stream_text fs)) \<and>
    role (last (messages (chatState (chat_receive ws fs w)))) = ''assistant'' \<and>
    isStreaming (last (messages (chatState (chat_receive ws fs w)))) = Some True"
    using chat_stream_fold [of ws w fs] by simp
  then show ?thesis
    by (simp add: scenario_A_value stream_text_of_string)
qed

theorem chat_scenario_and_stream_order_witness:
  "0 < length (chatSockets chat_opened) \<and>
   readyState (chatSockets chat_opened ! 0) = OPEN \<and>
   assistantMessage (closure (chatSockets chat_opened ! 0)) = [] \<and>
   list_all (\<lambda>f. js_get f ''type'' = JStr ''stream'') two_deltas \<and>
   list_ex (\<lambda>f. \<not> isl (js_to_string (js_get f ''content''))) two_deltas \<and>
   js_get (hd two_deltas) ''content'' = JStr ''Hi'' \<and>
   stream_text (hd two_deltas) = ''Hi'' \<and>
   content (last (messages (chatState (chat_receive 0 two_deltas chat_opened)))) =
     JStr ''Hi there''"
proof -
  have v: "chat_opened =
     \<lparr>chatState =
        \<lparr>sessionId = JNull,
         messages =
           [\<lparr>role = ''user'', content = JStr ''hello'', sources = JUndefined, isStreaming = None\<rparr>],
         isLoading = True, selectedKb = [], enableRag = False, enableWebSearch = False,
         currentStage = JStr ''connecting''\<rparr>,
      chatWs = Some 0,
      sessionIdRef = JNull,
      chatSockets =
        [\<lparr>readyState = OPEN,
          sent = [JObj [(''message'', JStr ''hello''), (''session_id'', JNull),
                        (''history'', JArr []), (''kb_name'', JStr []),
                        (''enable_rag'', JBool False), (''enable_web_search'', JBool False)]],
          closure = \<lparr>message = ''hello'', rendered = DEFAULT_CHAT_STATE,
                      assistantMessage = []\<rparr>\<rparr>]\<rparr>"
    by (simp add: chat_opened_def chat_defs ws_defs js_defs js_trim_def is_whitespace_def Let_def)
  have h1: "0 < length (chatSockets chat_opened)" by (simp add: v)
  have h2: "readyState (chatSockets chat_opened ! 0) = OPEN" by (simp add: v)
  have h3: "assistantMessage (closure (chatSockets chat_opened ! 0)) = []" by (simp add: v)
  have h4: "\<forall>f \<in> set two_deltas. js_get f ''type'' = JStr ''stream''"
    by (simp add: two_deltas_def js_get_def obj_get_def)
  have h5: "\<exists>f \<in> set two_deltas. \<not> isl (js_to_string (js_get f ''content''))"
    by (simp add: two_deltas_def js_get_def obj_get_def)
  have h6: "js_get (hd two_deltas) ''content'' = JStr ''Hi''"
    by (simp add: two_deltas_def js_get_def obj_get_def)
  have d: "concat (map stream_text two_deltas) = ''Hi there''"
    by (simp add: two_deltas_def stream_text_def js_get_def obj_get_def)
  have h4': "list_all (\<lambda>f. js_get f ''type'' = JStr ''stream'') two_deltas"
    using h4 by (simp add: list_all_iff)
  have h5': "list_ex (\<lambda>f. \<not> isl (js_to_string (js_get f ''content''))) two_deltas"
    using h5 by (simp add: list_ex_iff)
  note general =
    chat_scenario_and_stream_order [of 0 chat_opened two_deltas "hd two_deltas" "''Hi''"]
  from general h1 h2 h3 h4 h5 d
  have c: "content (last (messages (chatState (chat_receive 0 two_deltas chat_opened)))) =
     JStr ''Hi there''"
    by simp
  from general h6 have t: "stream_text (hd two_deltas) = ''Hi''"
    by simp
  from h1 h2 h3 h4' h5' h6 t c show ?thesis by blast
qed

section \<open>Supersession in the solver\<close>

lemmas solver_defs = solver_initial_def DEFAULT_SOLVER_STATE_def startSolver_def
  solver_onopen_def solver_onmessage_def solver_onerror_def solver_onclose_def
  addSolverLog_def stopSolver_def newSolverSession_def

lemmas research_defs = research_initial_def DEFAULT_RESEARCH_STATE_def startResearch_def
  research_onopen_def research_onmessage_def research_onerror_def research_onclose_def
  addResearchLog_def

lemma twice_started_value:
  "twice_started =
     \<lparr>solverState =
        \<lparr>SolverState.sessionId = JNull, isSolving = True, SolverState.logs = [],
         SolverState.messages =
           [\<lparr>ChatMessage.role = ''user'', ChatMessage.content = JStr ''q1'',
             outputDir = JUndefined\<rparr>,
            \<lparr>ChatMessage.role = ''user'', ChatMessage.content = JStr ''q2'',
             outputDir = JUndefined\<rparr>],
         question = ''q2'', SolverState.selectedKb = ''kb'',
         agentStatus = solver_agents ''pending'',
         tokenStats = unknown_token_stats, SolverState.progress = no_progress\<rparr>,
      solverWs = Some 1,
      solverSessionIdRef = JNull,
      solverSockets =
        [\<lparr>readyState = CLOSING, sent = [], closure = (''q1'', ''kb'')\<rparr>,
         \<lparr>readyState = CONNECTING, sent = [], closure = (''q2'', ''kb'')\<rparr>]\<rparr>"
  by (simp add: twice_started_def solver_defs ws_defs Let_def)

lemma live_ws_close:
  "i < length socks \<Longrightarrow> live (ws_close c socks ! i) = (live (socks ! i) \<and> i \<noteq> c)"
  by (auto simp: ws_close_def live_def nth_list_update)

lemma length_ws_close: "length (ws_close c socks) = length socks"
  by (simp add: ws_close_def)

lemma live_ws_set_state:
  "i < length socks \<Longrightarrow>
   live (ws_set_state c rs socks ! i) =
     (if i = c then rs = CONNECTING \<or> rs = OPEN else live (socks ! i))"
  by (auto simp: ws_set_state_def live_def nth_list_update)

lemma length_ws_set_state: "length (ws_set_state c rs socks) = length socks"
  by (simp add: ws_set_state_def)

lemma live_ws_send:
  "i < length socks \<Longrightarrow> live (ws_send c f socks ! i) = live (socks ! i)"
  by (auto simp: ws_send_def live_def nth_list_update)

lemma length_ws_send: "length (ws_send c f socks) = length socks"
  by (simp add: ws_send_def)

lemmas live_simps = live_ws_close length_ws_close live_ws_set_state length_ws_set_state
  live_ws_send length_ws_send

lemma startSolver_one_live:
  assumes "at_most_current_live w"
  shows "at_most_current_live (startSolver q kb w) \<and>
     solverWs (startSolver q kb w) = Some (length (solverSockets w)) \<and>
     (\<forall>i < length (solverSockets (startSolver q kb w)).
        live (solverSockets (startSolver q kb w) ! i) \<longleftrightarrow> i = length (solverSockets w))"
proof (cases "solverWs w")
  case None
  then show ?thesis using assms
    by (auto simp: at_most_current_live_def startSolver_def ws_new_def live_def nth_append
        Let_def)
next
  case (Some c)
  then show ?thesis using assms
    by (auto simp: at_most_current_live_def startSolver_def ws_new_def nth_append Let_def
        live_simps) (simp_all add: live_def)
qed

lemma solver_onmessage_sockets:
  "case solver_onmessage ws parsed w of
     Inl ew \<Rightarrow> snd ew = w
   | Inr w' \<Rightarrow> solverWs w' = solverWs w \<and>
       (solverSockets w' = solverSockets w \<or> solverSockets w' = ws_close ws (solverSockets w))"
  by (simp add: solver_onmessage_def addSolverLog_def Let_def split: option.split sum.split)

lemma solver_onopen_sockets:
  "\<exists>frame. solverSockets (solver_onopen ws w) = ws_send ws frame (solverSockets w) \<and>
     solverWs (solver_onopen ws w) = solverWs w"
  by (auto simp: solver_onopen_def addSolverLog_def Let_def)

lemma solver_onerror_sockets:
  "solverSockets (solver_onerror ws w) = solverSockets w \<and>
   solverWs (solver_onerror ws w) = solverWs w"
  by (simp add: solver_onerror_def addSolverLog_def Let_def)

lemma solver_onclose_sockets:
  "solverSockets (solver_onclose ws w) = solverSockets w \<and>
   solverWs (solver_onclose ws w) = (if solverWs w = Some ws then None else solverWs w)"
  by (simp add: solver_onclose_def)

lemma invariantI:
  assumes "\<And>i. i < length (solverSockets w) \<Longrightarrow> live (solverSockets w ! i) \<Longrightarrow> solverWs w = Some i"
  shows "at_most_current_live w"
  using assms by (simp add: at_most_current_live_def)

lemma invariantD:
  "at_most_current_live w \<Longrightarrow> i < length (solverSockets w) \<Longrightarrow> live (solverSockets w ! i) \<Longrightarrow>
   solverWs w = Some i"
  by (simp add: at_most_current_live_def)

lemma solver_opened_keeps_invariant:
  assumes inv: "at_most_current_live w"
    and ws: "ws < length (solverSockets w)" and c: "readyState (solverSockets w ! ws) = CONNECTING"
  shows "at_most_current_live
     (solver_onopen ws (w\<lparr>solverSockets := ws_set_state ws OPEN (solverSockets w)\<rparr>))"
proof (rule invariantI)
  let ?w1 = "w\<lparr>solverSockets := ws_set_state ws OPEN (solverSockets w)\<rparr>"
  fix i
  assume i: "i < length (solverSockets (solver_onopen ws ?w1))"
    and l: "live (solverSockets (solver_onopen ws ?w1) ! i)"
  obtain frame where f: "solverSockets (solver_onopen ws ?w1) =
      ws_send ws frame (ws_set_state ws OPEN (solverSockets w))"
    and r: "solverWs (solver_onopen ws ?w1) = solverWs w"
    using solver_onopen_sockets [of ws ?w1] by auto
  have i': "i < length (solverSockets w)"
    using i f by (simp add: live_simps)
  have "live (solverSockets w ! ws)"
    using c by (simp add: live_def)
  moreover have "i \<noteq> ws \<Longrightarrow> live (solverSockets w ! i)"
    using l f i' by (simp add: live_simps)
  ultimately have "live (solverSockets w ! i)"
    by (cases "i = ws") simp_all
  then show "solverWs (solver_onopen ws ?w1) = Some i"
    using invariantD [OF inv i'] r by simp
qed

lemma solver_closed_keeps_invariant:
  assumes inv: "at_most_current_live w" and ws: "ws < length (solverSockets w)"
    and same: "solverSockets w1 = ws_set_state ws CLOSED (solverSockets w)"
      "solverWs w1 = solverWs w"
  shows "at_most_current_live (solver_onclose ws w1)"
proof (rule invariantI)
  fix i
  assume i: "i < length (solverSockets (solver_onclose ws w1))"
    and l: "live (solverSockets (solver_onclose ws w1) ! i)"
  have i': "i < length (solverSockets w)"
    using i same solver_onclose_sockets [of ws w1] by (simp add: live_simps)
  have l': "live (ws_set_state ws CLOSED (solverSockets w) ! i)"
    using l same solver_onclose_sockets [of ws w1] by simp
  have ne: "i \<noteq> ws" and old: "live (solverSockets w ! i)"
    using l' i' by (simp_all add: live_simps split: if_splits)
  have "solverWs w = Some i"
    using invariantD [OF inv i' old] .
  then show "solverWs (solver_onclose ws w1) = Some i"
    using ne same solver_onclose_sockets [of ws w1] by simp
qed

lemma solver_message_keeps_invariant:
  assumes inv: "at_most_current_live w" and r: "solver_onmessage ws parsed w = Inr w'"
  shows "at_most_current_live w'"
proof (rule invariantI)
  fix i
  assume i: "i < length (solverSockets w')" and l: "live (solverSockets w' ! i)"
  have s: "solverWs w' = solverWs w \<and>
       (solverSockets w' = solverSockets w \<or> solverSockets w' = ws_close ws (solverSockets w))"
    using solver_onmessage_sockets [where ws = ws and parsed = parsed and w = w] r by simp
  have i': "i < length (solverSockets w)"
    using i s by (auto simp: live_simps)
  have "live (solverSockets w ! i)"
    using l s i' by (auto simp: live_simps)
  then show "solverWs w' = Some i"
    using invariantD [OF inv i'] s by simp
qed

lemma solver_deliver_keeps_invariant:
  assumes inv: "at_most_current_live w"
  shows "at_most_current_live (solver_deliver ev w)"
proof (cases ev)
  case (WsOpened ws)
  then show ?thesis
    using inv solver_opened_keeps_invariant [OF inv] by simp
next
  case (WsMessage ws parsed)
  show ?thesis
  proof (cases "solver_onmessage ws parsed w")
    case (Inl ew)
    then have "snd ew = w"
      using solver_onmessage_sockets [where ws = ws and parsed = parsed and w = w] by simp
    then show ?thesis using inv WsMessage Inl by simp
  next
    case (Inr w')
    then show ?thesis
      using inv WsMessage solver_message_keeps_invariant [OF inv Inr] by simp
  qed
next
  case (WsFailed ws)
  let ?w1 = "solver_onerror ws (w\<lparr>solverSockets := ws_set_state ws CLOSED (solverSockets w)\<rparr>)"
  have "ws < length (solverSockets w) \<Longrightarrow> at_most_current_live (solver_onclose ws ?w1)"
    using solver_closed_keeps_invariant [OF inv, of ws ?w1]
      solver_onerror_sockets [of ws "w\<lparr>solverSockets := ws_set_state ws CLOSED (solverSockets w)\<rparr>"]
    by simp
  then show ?thesis using inv WsFailed by simp
next
  case (WsClosed ws)
  let ?w1 = "w\<lparr>solverSockets := ws_set_state ws CLOSED (solverSockets w)\<rparr>"
  have "ws < length (solverSockets w) \<Longrightarrow> at_most_current_live (solver_onclose ws ?w1)"
    using solver_closed_keeps_invariant [OF inv, of ws ?w1] by simp
  then show ?thesis using inv WsClosed by simp
qed

lemma stopSolver_sockets:
  "solverWs (stopSolver w) = None \<and>
   solverSockets (stopSolver w) =
     (case solverWs w of None \<Rightarrow> solverSockets w | Some c \<Rightarrow> ws_close c (solverSockets w))"
  by (simp add: stopSolver_def addSolverLog_def Let_def split: option.split)

lemma newSolverSession_sockets:
  "solverWs (newSolverSession w) = None \<and>
   solverSockets (newSolverSession w) =
     (case solverWs w of None \<Rightarrow> solverSockets w | Some c \<Rightarrow> ws_close c (solverSockets w))"
  by (simp add: newSolverSession_def Let_def split: option.split)

lemma closing_current_leaves_none_live:
  assumes inv: "at_most_current_live w"
    and i: "i < length (solverSockets w)"
  shows "\<not> live ((case solverWs w of None \<Rightarrow> solverSockets w
                   | Some c \<Rightarrow> ws_close c (solverSockets w)) ! i)"
proof (cases "solverWs w")
  case None
  then show ?thesis using invariantD [OF inv i] by auto
next
  case (Some c)
  then show ?thesis using invariantD [OF inv i] i by (auto simp: live_simps)
qed

lemma length_closing_current:
  "length (case solverWs w of None \<Rightarrow> solverSockets w
           | Some c \<Rightarrow> ws_close c (solverSockets w)) = length (solverSockets w)"
  by (simp add: live_simps split: option.split)

lemma solver_step_keeps_invariant:
  assumes inv: "at_most_current_live w"
  shows "at_most_current_live (solver_step a w)"
proof (cases a)
  case (StartSolver q kb)
  then show ?thesis using startSolver_one_live [OF inv] by simp
next
  case StopSolver
  have "at_most_current_live (stopSolver w)"
  proof (rule invariantI)
    fix i
    assume "i < length (solverSockets (stopSolver w))"
      and "live (solverSockets (stopSolver w) ! i)"
    then show "solverWs (stopSolver w) = Some i"
      using closing_current_leaves_none_live [OF inv, of i] stopSolver_sockets [of w]
        length_closing_current [of w]
      by simp
  qed
  then show ?thesis using StopSolver by simp
next
  case NewSolverSession
  have "at_most_current_live (newSolverSession w)"
  proof (rule invariantI)
    fix i
    assume "i < length (solverSockets (newSolverSession w))"
      and "live (solverSockets (newSolverSession w) ! i)"
    then show "solverWs (newSolverSession w) = Some i"
      using closing_current_leaves_none_live [OF inv, of i] newSolverSession_sockets [of w]
        length_closing_current [of w]
      by simp
  qed
  then show ?thesis using NewSolverSession by simp
next
  case (SolverSocket ev)
  then show ?thesis using solver_deliver_keeps_invariant [OF inv] by simp
qed

lemma solver_at_most_one_live:
  "at_most_current_live (fold solver_step acts solver_initial)"
proof -
  have "at_most_current_live w \<Longrightarrow> at_most_current_live (fold solver_step acts w)" for w
    by (induction acts arbitrary: w) (simp_all add: solver_step_keeps_invariant)
  moreover have "at_most_current_live solver_initial"
    by (simp add: at_most_current_live_def solver_initial_def)
  ultimately show ?thesis by blast
qed

text \<open>
  In every state the solver can reach, a live socket is the current one, so at most one
  socket is live; and a message for a socket that is not open is not delivered.
\<close>

lemma superseded_message_dropped:
  "readyState (solverSockets w ! ws) \<noteq> OPEN \<Longrightarrow> solver_deliver (WsMessage ws parsed) w = w"
  by simp

text \<open>
  C1 fails in its second half. After two calls of \<^verbatim>\<open>startSolver\<close> the only live
  socket is the second one, which \<^verbatim>\<open>solverWs\<close> holds, and a late result frame for
  the first socket is not delivered. But the first socket was closed while connecting,
  so the browser reports its failure: an error event and a close event.
  The close handler tests \<^verbatim>\<open>solverWs.current === ws\<close> and does nothing; the error
  handler has no such test, so it appends its "Connection error" entry, clears
  \<^verbatim>\<open>isSolving\<close> and marks every agent failed, in the state of the second run, whose
  socket is still live.
\<close>

theorem superseded_socket_error_applied:
  "live_sockets (solverSockets twice_started) = [1] \<and>
   solverWs twice_started = Some 1 \<and>
   isSolving (solverState twice_started) \<and>
   SolverState.logs (solverState twice_started) = [] \<and>
   solver_deliver
     (WsMessage 0 (Some (JObj [(''type'', JStr ''result''), (''final_answer'', JStr ''a1'')])))
     twice_started = twice_started \<and>
   live_sockets (solverSockets (solver_deliver (WsFailed 0) twice_started)) = [1] \<and>
   solverWs (solver_deliver (WsFailed 0) twice_started) = Some 1 \<and>
   isSolving (solverState (solver_deliver (WsFailed 0) twice_started)) = False \<and>
   SolverState.logs (solverState (solver_deliver (WsFailed 0) twice_started)) =
     [JObj [(''type'', JStr ''error''), (''content'', JStr ''Connection error'')]] \<and>
   agentStatus (solverState (solver_deliver (WsFailed 0) twice_started)) = solver_agents ''error''"
  by (simp add: twice_started_value solver_defs ws_defs live_sockets_def live_def Let_def upt_rec)

section \<open>The initiating frames\<close>

lemma research_opened_value:
  "research_opened =
     \<lparr>researchState =
        \<lparr>status = ''running'',
         ResearchState.logs =
           [JObj [(''type'', JStr ''system''),
                  (''content'', JStr
                     ''Starting Research Pipeline (Plan: medium, Tools: RAG, Optimization: On)...'')]],
         report = JNull, topic = ''graphs'', ResearchState.selectedKb = ''kb'',
         ResearchState.progress = blank_research_progress\<rparr>,
      researchWs = Some 0,
      researchSockets =
        [\<lparr>readyState = OPEN,
          sent = [JObj [(''topic'', JStr ''graphs''), (''kb_name'', JStr ''kb''),
                        (''plan_mode'', JStr ''medium''), (''enabled_tools'', JArr [JStr ''RAG'']),
                        (''skip_rephrase'', JBool False)]],
          closure = research_request_0\<rparr>]\<rparr>"
  by (simp add: research_opened_def research_request_0_def research_defs ws_defs Let_def)

lemma chat_unnamed_session_value:
  "sessionId (chatState (chat_run chat_unnamed_session chat_initial)) = JUndefined \<and>
   map (\<lambda>frame. map fst (js_entries frame))
     (sent (chatSockets (chat_run chat_unnamed_session chat_initial) ! 1)) =
     [[''message'', ''history'', ''kb_name'', ''enable_rag'', ''enable_web_search'']]"
  by (simp add: chat_run_def chat_unnamed_session_def chat_defs clearChatHistory_def ws_defs
      js_defs js_trim_def is_whitespace_def Let_def)

text \<open>
  C7, as stated, fails for the research channel: the frame \<^verbatim>\<open>startResearch\<close> sends
  when its socket opens has the properties topic, kb_name, plan_mode, enabled_tools and
  skip_rephrase, and no session_id. (The research state has no session id at all.) It
  also fails in the chat after a session event that names no session: the
  \<^verbatim>\<open>sessionId\<close> is then undefined, and JSON leaves the property out of the next
  frame.
\<close>

theorem research_frame_without_session_id:
  "map (\<lambda>frame. map fst (js_entries frame)) (sent (researchSockets research_opened ! 0)) =
     [[''topic'', ''kb_name'', ''plan_mode'', ''enabled_tools'', ''skip_rephrase'']] \<and>
   list_all (\<lambda>frame. ''session_id'' \<notin> fst ` set (js_entries frame))
     (sent (researchSockets research_opened ! 0)) \<and>
   sessionId (chatState (chat_run chat_unnamed_session chat_initial)) = JUndefined \<and>
   map (\<lambda>frame. map fst (js_entries frame))
     (sent (chatSockets (chat_run chat_unnamed_session chat_initial) ! 1)) =
     [[''message'', ''history'', ''kb_name'', ''enable_rag'', ''enable_web_search'']]"
  using chat_unnamed_session_value by (simp add: research_opened_value)

text \<open>
  In the solver the frame carries the ref \<^verbatim>\<open>solverSessionIdRef\<close>. A session event
  writes the ref and the state's \<^verbatim>\<open>sessionId\<close>; the result branch writes the
  \<^verbatim>\<open>sessionId\<close> and not the ref, so that the next frame can carry another id than
  the state has.
\<close>

lemma solver_open_frame:
  assumes "ws < length (solverSockets w)" and "readyState (solverSockets w ! ws) = CONNECTING"
  shows "\<exists>frame. sent (solverSockets (solver_deliver (WsOpened ws) w) ! ws) =
            sent (solverSockets w ! ws) @ [frame] \<and>
          js_get frame ''session_id'' = json_norm (solverSessionIdRef w) \<and>
          (solverSessionIdRef w \<noteq> JUndefined \<longrightarrow>
             ''session_id'' \<in> fst ` set (js_entries frame))"
  using assms
  by (cases "solverSessionIdRef w = JUndefined")
    (simp_all add: solver_onopen_def addSolverLog_def ws_send_def ws_set_state_def Let_def
      js_get_def obj_get_def)

lemma solver_session_event:
  assumes "ws < length (solverSockets w)" and "readyState (solverSockets w ! ws) = OPEN"
    and "js_get data ''type'' = JStr ''session''"
  shows "solverSessionIdRef (solver_deliver (WsMessage ws (Some data)) w) = js_get data ''session_id'' \<and>
     SolverState.sessionId (solverState (solver_deliver (WsMessage ws (Some data)) w)) =
       js_get data ''session_id''"
  using assms js_get_type_not_nullish [OF assms(3)]
  by (simp add: solver_onmessage_def js_member_def Let_def)

lemma solver_opened_value:
  "solver_opened =
     \<lparr>solverState =
        \<lparr>SolverState.sessionId = JNull, isSolving = True,
         SolverState.logs =
           [JObj [(''type'', JStr ''system''), (''content'', JStr ''Initializing connection...'')]],
         SolverState.messages =
           [\<lparr>ChatMessage.role = ''user'', ChatMessage.content = JStr ''q1'',
             outputDir = JUndefined\<rparr>],
         question = ''q1'', SolverState.selectedKb = ''kb'',
         agentStatus = solver_agents ''pending'',
         tokenStats = unknown_token_stats, SolverState.progress = no_progress\<rparr>,
      solverWs = Some 0,
      solverSessionIdRef = JNull,
      solverSockets =
        [\<lparr>readyState = OPEN,
          sent = [JObj [(''question'', JStr ''q1''), (''kb_name'', JStr ''kb''),
                        (''session_id'', JNull)]],
          closure = (''q1'', ''kb'')\<rparr>]\<rparr>"
  by (simp add: solver_opened_def solver_defs ws_defs Let_def)

lemma solver_frame_without_result_session:
  "SolverState.sessionId (solverState solver_after_result) = JStr ''s2'' \<and>
   sent (solverSockets (solver_deliver (WsOpened 1) solver_after_result) ! 1) =
     [JObj [(''question'', JStr ''q2''), (''kb_name'', JStr ''kb''), (''session_id'', JNull)]]"
  by (simp add: solver_after_result_def solver_opened_value solver_defs ws_defs js_defs
      result_dirName_def Let_def)

text \<open>
  In the chat every handler that writes the state's \<^verbatim>\<open>sessionId\<close> writes the ref
  with the same value, so the ref keeps holding the \<^verbatim>\<open>sessionId\<close>.
\<close>

lemma sessionId_chat_updates:
  "sessionId (chat_stream_update a prev) = sessionId prev"
  "sessionId (chat_sources_update data prev) = sessionId prev"
  "sessionId (chat_result_update data prev) = sessionId prev"
  by (simp_all add: chat_stream_update_def chat_sources_update_def chat_result_update_def Let_def)

lemma chat_message_keeps_synced:
  assumes "chat_synced w" and "carries_session_id (ChatSocket (WsMessage ws parsed))"
  shows "chat_synced (case chat_onmessage ws parsed w of Inl ew \<Rightarrow> snd ew | Inr w' \<Rightarrow> w')"
proof (cases parsed)
  case None
  then show ?thesis using assms(1) by (simp add: chat_onmessage_def)
next
  case (Some data)
  show ?thesis
  proof (cases "nullish data")
    case True
    then show ?thesis using assms(1) Some by (simp add: chat_onmessage_def js_member_def)
  next
    case False
    then show ?thesis using assms Some
      by (simp add: chat_onmessage_def js_member_def chat_synced_def sessionId_chat_updates
          Let_def split: sum.split)
  qed
qed

lemma chat_deliver_keeps_synced:
  assumes "chat_synced w" and "carries_session_id (ChatSocket ev)"
  shows "chat_synced (chat_deliver ev w)"
proof (cases ev)
  case (WsOpened ws)
  then show ?thesis using assms(1) by (simp add: chat_synced_def chat_onopen_def Let_def)
next
  case (WsMessage ws parsed)
  then show ?thesis using assms chat_message_keeps_synced [of w ws parsed] by simp
next
  case (WsFailed ws)
  then show ?thesis using assms(1)
    by (simp add: chat_synced_def chat_onerror_def chat_onclose_def Let_def)
next
  case (WsClosed ws)
  then show ?thesis using assms(1)
    by (simp add: chat_synced_def chat_onclose_def Let_def)
qed

lemma chat_step_keeps_synced:
  assumes "chat_synced w" and "carries_session_id a"
  shows "chat_synced (chat_step a w)"
proof (cases a)
  case (SendChatMessage msg)
  then show ?thesis using assms(1) by (simp add: chat_synced_def sendChatMessage_def Let_def)
next
  case ClearChatHistory
  then show ?thesis by (simp add: chat_synced_def clearChatHistory_def)
next
  case NewChatSession
  then show ?thesis
    by (simp add: chat_synced_def newChatSession_def Let_def split: option.split)
next
  case (ChatSocket ev)
  then show ?thesis using assms chat_deliver_keeps_synced [of w ev] by simp
qed

lemma chat_run_keeps_synced:
  "chat_synced w \<Longrightarrow> list_all carries_session_id acts \<Longrightarrow> chat_synced (chat_run acts w)"
  unfolding chat_run_def
  by (induction acts arbitrary: w) (simp_all add: chat_step_keeps_synced)

lemma chat_open_frame:
  assumes "ws < length (chatSockets w)" and "readyState (chatSockets w ! ws) = CONNECTING"
    and "is_session_id (sessionIdRef w)"
  shows "\<exists>frame. sent (chatSockets (chat_deliver (WsOpened ws) w) ! ws) =
            sent (chatSockets w ! ws) @ [frame] \<and>
          map_of (js_entries frame) ''session_id'' = Some (sessionIdRef w)"
  using assms
  by (cases "sessionIdRef w")
    (simp_all add: chat_onopen_def ws_send_def ws_set_state_def Let_def)

text \<open>
  The restore effect keeps ref and state together where the restored \<^verbatim>\<open>sessionId\<close>
  is truthy: it copies it into the ref.
\<close>

lemma restore_chat_sets_ref:
  assumes "restore_channel Chat persisted p = (None, p')"
    and "truthy (obj_get (states p' Chat) ''sessionId'')"
    and "Object_keys persisted = Inr ks" and "ks \<noteq> []"
  shows "provider.sessionIdRef p' = obj_get (states p' Chat) ''sessionId''"
  using assms by (auto simp: restore_channel_def Let_def split: if_splits)

text \<open>
  C7, amended to the chat. Take a chat whose ref holds the state's \<^verbatim>\<open>sessionId\<close>, a
  string or null, as at the start; let it send messages, receive socket events, clear
  its history and start new sessions, with session events that carry a session id. When
  a connecting socket then opens, exactly one frame is sent on it, and that frame has a
  session_id: the \<^verbatim>\<open>sessionId\<close> of the chat's state at that moment, null where
  there is none.
\<close>

theorem initiating_frame_session_id:
  assumes "chat_synced w0"
    and "list_all carries_session_id acts"
    and "ws < length (chatSockets (chat_run acts w0))"
    and "readyState (chatSockets (chat_run acts w0) ! ws) = CONNECTING"
  shows "\<exists>frame. sent (chatSockets (chat_deliver (WsOpened ws) (chat_run acts w0)) ! ws) =
            sent (chatSockets (chat_run acts w0) ! ws) @ [frame] \<and>
          map_of (js_entries frame) ''session_id'' = Some (sessionId (chatState (chat_run acts w0))) \<and>
          is_session_id (sessionId (chatState (chat_run acts w0)))"
proof -
  have "chat_synced (chat_run acts w0)"
    using assms(1) assms(2) by (rule chat_run_keeps_synced)
  then have ref: "sessionIdRef (chat_run acts w0) = sessionId (chatState (chat_run acts w0))"
    and id: "is_session_id (sessionId (chatState (chat_run acts w0)))"
    by (simp_all add: chat_synced_def)
  from chat_open_frame [OF assms(3) assms(4)] ref id show ?thesis
    by simp
qed

lemma chat_second_send_value:
  "chat_run chat_second_send chat_initial = sendChatMessage ''again'' scenario_A"
  by (simp add: chat_run_def chat_second_send_def scenario_A_def chat_receive_def chat_frames_def)

lemma chat_second_send_sockets:
  "sessionId (chatState (chat_run chat_second_send chat_initial)) = JStr ''s1'' \<and>
   1 < length (chatSockets (chat_run chat_second_send chat_initial)) \<and>
   readyState (chatSockets (chat_run chat_second_send chat_initial) ! 1) = CONNECTING \<and>
   sent (chatSockets (chat_run chat_second_send chat_initial) ! 1) = []"
  by (simp add: chat_second_send_value scenario_A_value sendChatMessage_def ws_defs js_trim_def
      is_whitespace_def Let_def)

theorem initiating_frame_session_id_witness:
  "chat_synced chat_initial \<and>
   list_all carries_session_id chat_second_send \<and>
   1 < length (chatSockets (chat_run chat_second_send chat_initial)) \<and>
   readyState (chatSockets (chat_run chat_second_send chat_initial) ! 1) = CONNECTING \<and>
   sessionId (chatState (chat_run chat_second_send chat_initial)) = JStr ''s1'' \<and>
   (\<exists>frame. sent (chatSockets (chat_deliver (WsOpened 1)
                 (chat_run chat_second_send chat_initial)) ! 1) = [frame] \<and>
       map_of (js_entries frame) ''session_id'' = Some (JStr ''s1''))"
proof -
  let ?w = "chat_run chat_second_send chat_initial"
  have h1: "chat_synced chat_initial"
    by (simp add: chat_synced_def chat_initial_def DEFAULT_CHAT_STATE_def)
  have h2: "list_all carries_session_id chat_second_send"
    by (simp add: chat_second_send_def chat_frames_def js_get_def obj_get_def)
  have h3: "1 < length (chatSockets ?w)"
    and h4: "readyState (chatSockets ?w ! 1) = CONNECTING"
    and s: "sent (chatSockets ?w ! 1) = []"
    and sid: "sessionId (chatState ?w) = JStr ''s1''"
    by (insert chat_second_send_sockets) blast+
  from initiating_frame_session_id [OF h1 h2 h3 h4] s sid
  have "\<exists>frame. sent (chatSockets (chat_deliver (WsOpened 1) ?w) ! 1) = [frame] \<and>
       map_of (js_entries frame) ''session_id'' = Some (JStr ''s1'')"
    by simp
  with h1 h2 h3 h4 sid show ?thesis by blast
qed

section \<open>Error events\<close>

lemma js_to_string_throws_iff:
  "isl (js_to_string v) = holds_toString v"
  "isl (js_to_strings xs) = (\<exists>x \<in> set xs. holds_toString x)"
proof (induction v and xs rule: js_to_string_js_to_strings.induct)
  case (6 xs)
  then show ?case by (cases "js_to_strings xs") auto
next
  case (9 x xs)
  then show ?case
    by (cases "js_to_string x"; cases "js_to_strings xs"; cases "nullish x")
      (auto elim: nullish.elims)
qed simp_all

lemma js_to_string_only_TypeError:
  "js_to_string v = Inl e \<Longrightarrow> e = TypeError"
  "js_to_strings xs = Inl e \<Longrightarrow> e = TypeError"
  by (induction v and xs rule: js_to_string_js_to_strings.induct)
     (auto split: sum.splits if_splits)

lemma research_unprintable_error:
  "research_onmessage 0 (Some unprintable_error_frame) research_opened =
     Inl (TypeError, research_opened)"
  by (simp add: unprintable_error_frame_def research_onmessage_def js_defs Let_def)

text \<open>
  C8, as stated, fails for the research channel, in two ways. After an error event its
  status is "idle", the status of a channel that never ran, not an error value (no
  channel state has an error status). And the handler throws where the message of the
  event does not convert to a string, as an object with a property named toString: the
  TypeError leaves the template literal before anything is appended, and the status stays
  "running".
\<close>

theorem research_error_status_idle:
  "status (researchState (research_deliver
      (WsMessage 0 (Some (JObj [(''type'', JStr ''error''), (''message'', JStr ''boom'')])))
      research_opened)) = ''idle'' \<and>
   status (researchState (research_deliver
      (WsMessage 0 (Some (JObj [(''type'', JStr ''error''), (''message'', JStr ''boom'')])))
      research_opened)) \<noteq> ''error'' \<and>
   status DEFAULT_RESEARCH_STATE = ''idle'' \<and>
   research_onmessage 0 (Some unprintable_error_frame) research_opened =
     Inl (TypeError, research_opened) \<and>
   research_deliver (WsMessage 0 (Some unprintable_error_frame)) research_opened =
     research_opened \<and>
   status (researchState research_opened) = ''running''"
  by (simp add: research_unprintable_error)
    (simp add: research_opened_value research_defs js_defs Let_def)

text \<open>
  C8, amended to the solver, the research and the chat channel, and to error events whose
  message converts to a string. In every state, the handler of such an event returns
  normally, appends one error entry with that string (to \<^verbatim>\<open>logs\<close> in the solver and
  in research, to \<^verbatim>\<open>messages\<close> in the chat) and leaves the lifecycle tag at its value
  for "not running": \<^verbatim>\<open>isSolving\<close> false, \<^verbatim>\<open>status\<close> "idle", \<^verbatim>\<open>isLoading\<close>
  false with a null stage. The chat also closes its socket. The solver and research
  print \<^verbatim>\<open>data.content || data.message || "Unknown error"\<close>, the chat
  \<^verbatim>\<open>data.message\<close>. A value converts to a string unless it is an object with a
  property named toString, or an array that has such a value among its elements.
\<close>

theorem error_event_handled:
  "(js_get data ''type'' = JStr ''error'' \<and>
    js_to_string (js_or (js_or (js_get data ''content'') (js_get data ''message''))
                    (JStr ''Unknown error'')) = Inr reason \<longrightarrow>
      (\<exists>w'. solver_onmessage ws (Some data) w = Inr w' \<and>
         \<not> isSolving (solverState w') \<and>
         SolverState.logs (solverState w') = SolverState.logs (solverState w) @
           [JObj [(''type'', JStr ''error''), (''content'', JStr (''Error: '' @ reason))]] \<and>
         SolverState.messages (solverState w') = SolverState.messages (solverState w) \<and>
         solverSockets w' = solverSockets w) \<and>
      (\<exists>w'. research_onmessage ws (Some data) rw = Inr w' \<and>
         status (researchState w') = ''idle'' \<and>
         ResearchState.logs (researchState w') = ResearchState.logs (researchState rw) @
           [JObj [(''type'', JStr ''error''), (''content'', JStr (''Error: '' @ reason))]] \<and>
         researchSockets w' = researchSockets rw)) \<and>
   (js_get data ''type'' = JStr ''error'' \<and>
    js_to_string (js_get data ''message'') = Inr said \<longrightarrow>
      (\<exists>w'. chat_onmessage ws (Some data) cw = Inr w' \<and>
         \<not> isLoading (chatState w') \<and>
         currentStage (chatState w') = JNull \<and>
         messages (chatState w') = messages (chatState cw) @
           [\<lparr>role = ''assistant'', content = JStr (''Error: '' @ said),
             sources = JUndefined, isStreaming = None\<rparr>] \<and>
         chatSockets w' = ws_close ws (chatSockets cw))) \<and>
   isl (js_to_string v) = holds_toString v"
proof (cases "js_get data ''type'' = JStr ''error''")
  case True
  note nn = js_get_type_not_nullish [OF True]
  have a: "js_to_string (js_or (js_or (js_get data ''content'') (js_get data ''message''))
                    (JStr ''Unknown error'')) = Inr reason \<Longrightarrow>
      \<exists>w'. solver_onmessage ws (Some data) w = Inr w' \<and>
         \<not> isSolving (solverState w') \<and>
         SolverState.logs (solverState w') = SolverState.logs (solverState w) @
           [JObj [(''type'', JStr ''error''), (''content'', JStr (''Error: '' @ reason))]] \<and>
         SolverState.messages (solverState w') = SolverState.messages (solverState w) \<and>
         solverSockets w' = solverSockets w"
    using True nn by (simp add: solver_onmessage_def js_member_def addSolverLog_def Let_def)
  have b: "js_to_string (js_or (js_or (js_get data ''content'') (js_get data ''message''))
                    (JStr ''Unknown error'')) = Inr reason \<Longrightarrow>
      \<exists>w'. research_onmessage ws (Some data) rw = Inr w' \<and>
         status (researchState w') = ''idle'' \<and>
         ResearchState.logs (researchState w') = ResearchState.logs (researchState rw) @
           [JObj [(''type'', JStr ''error''), (''content'', JStr (''Error: '' @ reason))]] \<and>
         researchSockets w' = researchSockets rw"
    using True nn by (simp add: research_onmessage_def js_member_def addResearchLog_def Let_def)
  have c: "js_to_string (js_get data ''message'') = Inr said \<Longrightarrow>
      \<exists>w'. chat_onmessage ws (Some data) cw = Inr w' \<and>
         \<not> isLoading (chatState w') \<and>
         currentStage (chatState w') = JNull \<and>
         messages (chatState w') = messages (chatState cw) @
           [\<lparr>role = ''assistant'', content = JStr (''Error: '' @ said),
             sources = JUndefined, isStreaming = None\<rparr>] \<and>
         chatSockets w' = ws_close ws (chatSockets cw)"
    using True nn by (simp add: chat_onmessage_def js_member_def Let_def)
  from a b c js_to_string_throws_iff(1) [of v] show ?thesis by blast
next
  case False
  then show ?thesis using js_to_string_throws_iff(1) [of v] by simp
qed

theorem error_event_handled_witness:
  "js_get error_frame ''type'' = JStr ''error'' \<and>
   js_to_string (js_or (js_or (js_get error_frame ''content'') (js_get error_frame ''message''))
                   (JStr ''Unknown error'')) = Inr ''boom'' \<and>
   js_to_string (js_get error_frame ''message'') = Inr ''boom'' \<and>
   \<not> holds_toString (js_get error_frame ''message'') \<and>
   (\<exists>w'. solver_onmessage 0 (Some error_frame) solver_opened = Inr w' \<and>
      \<not> isSolving (solverState w') \<and>
      SolverState.logs (solverState w') = SolverState.logs (solverState solver_opened) @
        [JObj [(''type'', JStr ''error''), (''content'', JStr ''Error: boom'')]] \<and>
      SolverState.messages (solverState w') = SolverState.messages (solverState solver_opened) \<and>
      solverSockets w' = solverSockets solver_opened) \<and>
   (\<exists>w'. research_onmessage 0 (Some error_frame) research_opened = Inr w' \<and>
      status (researchState w') = ''idle'' \<and>
      ResearchState.logs (researchState w') =
        ResearchState.logs (researchState research_opened) @
        [JObj [(''type'', JStr ''error''), (''content'', JStr ''Error: boom'')]] \<and>
      researchSockets w' = researchSockets research_opened) \<and>
   (\<exists>w'. chat_onmessage 0 (Some error_frame) chat_opened = Inr w' \<and>
      \<not> isLoading (chatState w') \<and>
      currentStage (chatState w') = JNull \<and>
      messages (chatState w') = messages (chatState chat_opened) @
        [\<lparr>role = ''assistant'', content = JStr ''Error: boom'',
          sources = JUndefined, isStreaming = None\<rparr>] \<and>
      chatSockets w' = ws_close 0 (chatSockets chat_opened))"
proof -
  have h: "js_get error_frame ''type'' = JStr ''error''"
    by (simp add: error_frame_def js_get_def obj_get_def)
  have r: "js_to_string (js_or (js_or (js_get error_frame ''content'')
             (js_get error_frame ''message'')) (JStr ''Unknown error'')) = Inr ''boom''"
    by (simp add: error_frame_def js_defs)
  have m: "js_to_string (js_get error_frame ''message'') = Inr ''boom''"
    by (simp add: error_frame_def js_defs)
  have n: "\<not> holds_toString (js_get error_frame ''message'')"
    by (simp add: error_frame_def js_defs)
  from error_event_handled
    [of error_frame "''boom''" 0 solver_opened research_opened "''boom''" chat_opened
      "js_get error_frame ''message''"] h r m n
  show ?thesis by simp
qed

end
